theory Spec2Isabelle
  imports Main "HOL-Library.Sublist"
begin

section \<open>Python strings and values\<close>

text \<open>
  A Python \<open>str\<close> is a sequence of Unicode code points, and \<open>len\<close> counts code
  points; a string is therefore modelled as a list of code-point numbers. ASCII literals
  of the source are written \<open>ascii ''...''\<close>.
\<close>

type_synonym pystr = "nat list"

abbreviation (input) ascii :: "string \<Rightarrow> pystr" where
  "ascii s \<equiv> map of_char s"

text \<open>
  The character tables of the Python runtime. On the ASCII range the predicates and case
  mappings below are written out; beyond it they are read from a table that every
  function takes as its first argument. \<open>u_lower\<close> receives the whole string and the
  position, because \<open>str.lower\<close> is context dependent there (final sigma);
  \<open>str.upper\<close> maps each code point on its own, possibly to several.
\<close>

record unicode =
  u_isalpha :: "nat \<Rightarrow> bool"
  u_isspace :: "nat \<Rightarrow> bool"
  u_isdecimal :: "nat \<Rightarrow> bool"
  u_isalnum :: "nat \<Rightarrow> bool"
  u_upper :: "nat \<Rightarrow> pystr"
  u_lower :: "pystr \<Rightarrow> nat \<Rightarrow> pystr"

definition ascii_tables :: unicode where
  "ascii_tables =
     \<lparr>u_isalpha = (\<lambda>c. False), u_isspace = (\<lambda>c. False), u_isdecimal = (\<lambda>c. False),
      u_isalnum = (\<lambda>c. False), u_upper = (\<lambda>c. [c]), u_lower = (\<lambda>s i. [s ! i])\<rparr>"

definition isalpha :: "unicode \<Rightarrow> nat \<Rightarrow> bool" where
  "isalpha U c =
     (if c < 128 then (65 \<le> c \<and> c \<le> 90) \<or> (97 \<le> c \<and> c \<le> 122) else u_isalpha U c)"

definition isspace :: "unicode \<Rightarrow> nat \<Rightarrow> bool" where
  "isspace U c =
     (if c < 128 then (9 \<le> c \<and> c \<le> 13) \<or> (28 \<le> c \<and> c \<le> 32) else u_isspace U c)"

definition isdecimal :: "unicode \<Rightarrow> nat \<Rightarrow> bool" where
  "isdecimal U c = (if c < 128 then 48 \<le> c \<and> c \<le> 57 else u_isdecimal U c)"

definition isalnum :: "unicode \<Rightarrow> nat \<Rightarrow> bool" where
  "isalnum U c =
     (if c < 128 then (48 \<le> c \<and> c \<le> 57) \<or> (65 \<le> c \<and> c \<le> 90) \<or> (97 \<le> c \<and> c \<le> 122)
      else u_isalnum U c)"

definition upper_cp :: "unicode \<Rightarrow> nat \<Rightarrow> pystr" where
  "upper_cp U c = (if c < 128 then [if 97 \<le> c \<and> c \<le> 122 then c - 32 else c] else u_upper U c)"

definition upper :: "unicode \<Rightarrow> pystr \<Rightarrow> pystr" where
  "upper U s = concat (map (upper_cp U) s)"

fun lower_from :: "unicode \<Rightarrow> pystr \<Rightarrow> nat \<Rightarrow> pystr \<Rightarrow> pystr" where
  "lower_from U s i [] = []"
| "lower_from U s i (c # cs) =
     (if c < 128 then [if 65 \<le> c \<and> c \<le> 90 then c + 32 else c] else u_lower U s i)
       @ lower_from U s (Suc i) cs"

definition lower :: "unicode \<Rightarrow> pystr \<Rightarrow> pystr" where
  "lower U s = lower_from U s 0 s"

definition lstrip :: "unicode \<Rightarrow> pystr \<Rightarrow> pystr" where
  "lstrip U s = dropWhile (isspace U) s"

definition rstrip :: "unicode \<Rightarrow> pystr \<Rightarrow> pystr" where
  "rstrip U s = rev (dropWhile (isspace U) (rev s))"

definition strip :: "unicode \<Rightarrow> pystr \<Rightarrow> pystr" where
  "strip U s = rstrip U (lstrip U s)"

text \<open>\<open>s.rstrip("/")\<close>: trailing slashes removed.\<close>

definition rstrip_slash :: "pystr \<Rightarrow> pystr" where
  "rstrip_slash s = rev (dropWhile (\<lambda>c. c = 47) (rev s))"

text \<open>\<open>s.startswith(p)\<close>\<close>

definition startswith :: "pystr \<Rightarrow> pystr \<Rightarrow> bool" where
  "startswith s p = (take (length p) s = p)"

text \<open>\<open>str(n)\<close> for a non-negative integer, and for any integer.\<close>

fun str_nat :: "nat \<Rightarrow> pystr" where
  "str_nat n = (if n < 10 then [48 + n] else str_nat (n div 10) @ [48 + n mod 10])"

declare str_nat.simps [simp del]

definition str_int :: "int \<Rightarrow> pystr" where
  "str_int i = (if i < 0 then 45 # str_nat (nat (- i)) else str_nat (nat i))"

text \<open>
  The values a JSON document or a keyword argument can hold. JSON numbers are kept as
  integers: the code below only asks whether a value is a string, a list or a dictionary
  and whether it is truthy.
\<close>

datatype pyval =
    PNone
  | PBool bool
  | PNum int
  | PStr pystr
  | PList "pyval list"
  | PDict "(pystr \<times> pyval) list"

fun truthy :: "pyval \<Rightarrow> bool" where
  "truthy PNone = False"
| "truthy (PBool b) = b"
| "truthy (PNum n) = (n \<noteq> 0)"
| "truthy (PStr s) = (s \<noteq> [])"
| "truthy (PList l) = (l \<noteq> [])"
| "truthy (PDict d) = (d \<noteq> [])"

text \<open>\<open>a or b\<close>\<close>

definition py_or :: "pyval \<Rightarrow> pyval \<Rightarrow> pyval" where
  "py_or a b = (if truthy a then a else b)"

datatype exn =
    AttributeError
  | KeyError
  | UnicodeEncodeError

section \<open>The tenant configuration store (config\_store.py)\<close>

type_synonym settings_dict = "pystr \<rightharpoonup> pyval"

text \<open>
  \<open>ConfigStore.data\<close>: the three top-level mappings, keyed by \<open>str(guild_id)\<close>.
  \<open>save()\<close> writes the document to disk and leaves it unchanged, so the operations
  below return the document they would save.
\<close>

record store =
  guilds :: "pystr \<rightharpoonup> pystr list"
  blacklist :: "pystr \<rightharpoonup> pystr list"
  settings :: "pystr \<rightharpoonup> settings_dict"

definition empty_store :: store where
  "empty_store = \<lparr>guilds = Map.empty, blacklist = Map.empty, settings = Map.empty\<rparr>"

definition SENSITIVE_KEYS :: "pystr set" where
  "SENSITIVE_KEYS = {ascii ''deepl_api_key'', ascii ''libre_api_key''}"

definition g_key :: "int \<Rightarrow> pystr" where
  "g_key guild_id = str_int guild_id"

definition list_of :: "(pystr \<rightharpoonup> pystr list) \<Rightarrow> pystr \<Rightarrow> pystr list" where
  "list_of m g = (case m g of None \<Rightarrow> [] | Some arr \<Rightarrow> arr)"

definition add_channel :: "store \<Rightarrow> int \<Rightarrow> int \<Rightarrow> store" where
  "add_channel S guild_id channel_id =
     (let g = g_key guild_id; arr = list_of (guilds S) g; c = str_int channel_id
      in S\<lparr>guilds := (guilds S)(g \<mapsto> (if c \<in> set arr then arr else arr @ [c]))\<rparr>)"

definition remove_channel :: "store \<Rightarrow> int \<Rightarrow> int \<Rightarrow> store" where
  "remove_channel S guild_id channel_id =
     (let g = g_key guild_id; arr = list_of (guilds S) g
      in S\<lparr>guilds := (guilds S)(g \<mapsto> filter (\<lambda>x. x \<noteq> str_int channel_id) arr)\<rparr>)"

definition has_channel :: "store \<Rightarrow> int \<Rightarrow> int \<Rightarrow> bool" where
  "has_channel S guild_id channel_id =
     (str_int channel_id \<in> set (list_of (guilds S) (g_key guild_id)))"

definition list_blacklist :: "unicode \<Rightarrow> store \<Rightarrow> int \<Rightarrow> pystr list" where
  "list_blacklist U S guild_id = map (upper U) (list_of (blacklist S) (g_key guild_id))"

definition add_blacklist :: "unicode \<Rightarrow> store \<Rightarrow> int \<Rightarrow> pystr \<Rightarrow> store" where
  "add_blacklist U S guild_id code0 =
     (let code = strip U (upper U code0) in
      if code = [] then S
      else
        (let g = g_key guild_id; arr = list_of (blacklist S) g
         in S\<lparr>blacklist := (blacklist S)(g \<mapsto> (if code \<in> set arr then arr else arr @ [code]))\<rparr>))"

definition remove_blacklist :: "unicode \<Rightarrow> store \<Rightarrow> int \<Rightarrow> pystr \<Rightarrow> store" where
  "remove_blacklist U S guild_id code0 =
     (let code = strip U (upper U code0); g = g_key guild_id; arr = list_of (blacklist S) g
      in S\<lparr>blacklist := (blacklist S)(g \<mapsto> filter (\<lambda>x. x \<noteq> code) arr)\<rparr>)"

text \<open>
  \<open>get_settings\<close> creates the tenant's record when it is missing and returns it; the
  store it leaves behind comes first.
\<close>

definition get_settings :: "store \<Rightarrow> int \<Rightarrow> store \<times> settings_dict" where
  "get_settings S guild_id =
     (let g = g_key guild_id;
          st = (case settings S g of None \<Rightarrow> Map.empty | Some d \<Rightarrow> d)
      in (S\<lparr>settings := (settings S)(g \<mapsto> st)\<rparr>, st))"

text \<open>One turn of the loop over \<open>kwargs.items()\<close>.\<close>

definition set_field :: "settings_dict \<Rightarrow> pystr \<times> pyval \<Rightarrow> settings_dict" where
  "set_field st kv = (if snd kv = PNone then st else st(fst kv \<mapsto> snd kv))"

definition update_settings :: "store \<Rightarrow> int \<Rightarrow> (pystr \<times> pyval) list \<Rightarrow> store \<times> settings_dict" where
  "update_settings S guild_id kwargs =
     (let (S1, st) = get_settings S guild_id;
          st' = foldl set_field st kwargs
      in (S1\<lparr>settings := (settings S1)(g_key guild_id \<mapsto> st')\<rparr>, st'))"

text \<open>The masked rendering of one secret: \<open>v[:4] + "\<dots>" + str(len(v))\<close>; U+2026 is 8230.\<close>

definition mask_secret :: "pystr \<Rightarrow> pystr" where
  "mask_secret v = take 4 v @ [8230] @ str_nat (length v)"

definition masked_value :: "pystr \<Rightarrow> pyval \<Rightarrow> pyval" where
  "masked_value k v =
     (case v of
        PStr s \<Rightarrow> (if k \<in> SENSITIVE_KEYS \<and> s \<noteq> [] then PStr (mask_secret s) else v)
      | _ \<Rightarrow> v)"

definition masked_settings :: "settings_dict \<Rightarrow> settings_dict" where
  "masked_settings st = (\<lambda>k. map_option (masked_value k) (st k))"

text \<open>
  The mutating calls on the channel list and the blacklist, and a run of them from the
  store a fresh \<open>ConfigStore\<close> holds.
\<close>

datatype store_op =
    AddChannel int int
  | RemoveChannel int int
  | AddBlacklist int pystr
  | RemoveBlacklist int pystr

fun apply_op :: "unicode \<Rightarrow> store \<Rightarrow> store_op \<Rightarrow> store" where
  "apply_op U S (AddChannel g c) = add_channel S g c"
| "apply_op U S (RemoveChannel g c) = remove_channel S g c"
| "apply_op U S (AddBlacklist g code) = add_blacklist U S g code"
| "apply_op U S (RemoveBlacklist g code) = remove_blacklist U S g code"

definition run_ops :: "unicode \<Rightarrow> store_op list \<Rightarrow> store" where
  "run_ops U ops = foldl (apply_op U) empty_store ops"

text \<open>
  What the invariant asks of a store: no list holds an entry twice, and
  \<open>upper()\<close> leaves every stored blacklist code as it is.
\<close>

definition store_inv :: "unicode \<Rightarrow> store \<Rightarrow> bool" where
  "store_inv U S =
     (\<forall>g. distinct (list_of (guilds S) g) \<and> distinct (list_of (blacklist S) g) \<and>
          list_all (\<lambda>c. upper U c = c) (list_of (blacklist S) g))"

text \<open>
  The property of the runtime's upper-casing table that the invariant rests on: beyond
  ASCII, the code points \<open>upper()\<close> produces are themselves left alone by it.
\<close>

definition upper_fixed :: "unicode \<Rightarrow> bool" where
  "upper_fixed U = (\<forall>c. 128 \<le> c \<longrightarrow> list_all (\<lambda>d. upper_cp U d = [d]) (u_upper U c))"

section \<open>Operations on dynamically typed values\<close>

text \<open>
  A method call on a value that has no such method raises \<open>AttributeError\<close>. Where
  the source makes such a call, the model returns a sum with the exception on the left.
\<close>

definition bind_exn :: "exn + 'a \<Rightarrow> ('a \<Rightarrow> exn + 'b) \<Rightarrow> exn + 'b" where
  "bind_exn m f = (case m of Inl e \<Rightarrow> Inl e | Inr x \<Rightarrow> f x)"

text \<open>\<open>v.upper()\<close>, \<open>v.lower()\<close>, \<open>v.strip()\<close>, \<open>v.rstrip("/")\<close>\<close>

definition py_upper :: "unicode \<Rightarrow> pyval \<Rightarrow> exn + pystr" where
  "py_upper U v = (case v of PStr s \<Rightarrow> Inr (upper U s) | _ \<Rightarrow> Inl AttributeError)"

definition py_lower :: "unicode \<Rightarrow> pyval \<Rightarrow> exn + pystr" where
  "py_lower U v = (case v of PStr s \<Rightarrow> Inr (lower U s) | _ \<Rightarrow> Inl AttributeError)"

definition py_strip :: "unicode \<Rightarrow> pyval \<Rightarrow> exn + pystr" where
  "py_strip U v = (case v of PStr s \<Rightarrow> Inr (strip U s) | _ \<Rightarrow> Inl AttributeError)"

definition py_rstrip_slash :: "pyval \<Rightarrow> exn + pystr" where
  "py_rstrip_slash v = (case v of PStr s \<Rightarrow> Inr (rstrip_slash s) | _ \<Rightarrow> Inl AttributeError)"

text \<open>\<open>v.get(k, default)\<close>: only a dictionary has it.\<close>

definition py_get :: "pyval \<Rightarrow> pystr \<Rightarrow> pyval \<Rightarrow> exn + pyval" where
  "py_get v k dflt =
     (case v of
        PDict d \<Rightarrow> Inr (case map_of d k of None \<Rightarrow> dflt | Some x \<Rightarrow> x)
      | _ \<Rightarrow> Inl AttributeError)"

text \<open>\<open>cfg.get(k)\<close> on a settings dictionary.\<close>

definition cfg_get :: "settings_dict \<Rightarrow> pystr \<Rightarrow> pyval" where
  "cfg_get cfg k = (case cfg k of None \<Rightarrow> PNone | Some v \<Rightarrow> v)"

text \<open>
  A \<open>try: ... except Exception: return None\<close> block around a computation that yields
  the function's result.
\<close>

definition try_or_none :: "exn + 'a \<Rightarrow> 'a option" where
  "try_or_none m = (case m of Inl e \<Rightarrow> None | Inr x \<Rightarrow> Some x)"

section \<open>The outside world of the providers\<close>

text \<open>
  The translation back-ends are reached through the \<open>deepl\<close> and \<open>httpx\<close> libraries.
  What they answer is a parameter of the model: a call either raises, or answers.
  An HTTP answer carries its status code and what \<open>r.json()\<close> yields (\<open>None\<close> when the
  body is not JSON and \<open>r.json()\<close> raises). The DeepL client answers with the
  \<open>detected_source_lang\<close> and \<open>text\<close> attributes of its result.
\<close>

datatype request =
    PostForm pystr "(pystr \<times> pystr) list"
  | PostJson pystr "(pystr \<times> pystr) list"
  | Get pystr

datatype http_outcome =
    Raises
  | Response int "pyval option"

record world =
  deepl_Translator_ok :: "pystr \<Rightarrow> bool"
  deepl_translateText :: "pystr \<Rightarrow> pystr \<Rightarrow> pystr \<Rightarrow> (pyval \<times> pyval) option"
  http :: "request \<Rightarrow> http_outcome"

text \<open>
  \<open>urllib.parse.quote(text, safe="")\<close>: the UTF-8 bytes of every code point outside the
  unreserved set, percent-encoded. Encoding is strict: a surrogate code point
  (U+D800 to U+DFFF) has no UTF-8 form and raises \<open>UnicodeEncodeError\<close>.
\<close>

definition is_surrogate :: "nat \<Rightarrow> bool" where
  "is_surrogate c = (55296 \<le> c \<and> c \<le> 57343)"

definition utf8 :: "nat \<Rightarrow> nat list" where
  "utf8 c =
     (if c < 128 then [c]
      else if c < 2048 then [192 + c div 64, 128 + c mod 64]
      else if c < 65536 then [224 + c div 4096, 128 + (c div 64) mod 64, 128 + c mod 64]
      else [240 + c div 262144, 128 + (c div 4096) mod 64, 128 + (c div 64) mod 64,
            128 + c mod 64])"

definition hexdigit :: "nat \<Rightarrow> nat" where
  "hexdigit n = (if n < 10 then 48 + n else 55 + n)"

definition unreserved :: "nat \<Rightarrow> bool" where
  "unreserved c =
     ((48 \<le> c \<and> c \<le> 57) \<or> (65 \<le> c \<and> c \<le> 90) \<or> (97 \<le> c \<and> c \<le> 122) \<or>
      c = 95 \<or> c = 46 \<or> c = 45 \<or> c = 126)"

definition quote_cp :: "nat \<Rightarrow> pystr" where
  "quote_cp c =
     (if unreserved c then [c]
      else concat (map (\<lambda>b. [37, hexdigit (b div 16), hexdigit (b mod 16)]) (utf8 c)))"

definition quote :: "pystr \<Rightarrow> exn + pystr" where
  "quote s = (if list_ex is_surrogate s then Inl UnicodeEncodeError
              else Inr (concat (map quote_cp s)))"

section \<open>The providers (providers.py)\<close>

text \<open>
  The four subclasses of \<open>TranslationProvider\<close>, each with the attributes its
  constructor sets: the DeepL key and whether \<open>self._translator\<close> was created, the
  LibreTranslate base URL and key, the Lingva and SimplyTranslate base URLs.
\<close>

datatype provider =
    DeepLProvider pystr bool
  | LibreTranslateProvider pystr pystr
  | LingvaProvider pystr
  | SimplyTranslateProvider pystr

definition new_DeepLProvider :: "unicode \<Rightarrow> world \<Rightarrow> pyval \<Rightarrow> exn + provider" where
  "new_DeepLProvider U W api_key =
     bind_exn (py_strip U (py_or api_key (PStr [])))
       (\<lambda>k. Inr (DeepLProvider k (k \<noteq> [] \<and> deepl_Translator_ok W k)))"

definition new_LibreTranslateProvider :: "unicode \<Rightarrow> pyval \<Rightarrow> pyval \<Rightarrow> exn + provider" where
  "new_LibreTranslateProvider U base_url api_key =
     bind_exn (py_rstrip_slash (py_or base_url (PStr [])))
       (\<lambda>b. bind_exn (py_strip U (py_or api_key (PStr [])))
          (\<lambda>k. Inr (LibreTranslateProvider b k)))"

definition new_LingvaProvider :: "pyval \<Rightarrow> exn + provider" where
  "new_LingvaProvider base_url =
     bind_exn (py_rstrip_slash (py_or base_url (PStr []))) (\<lambda>b. Inr (LingvaProvider b))"

definition new_SimplyTranslateProvider :: "pyval \<Rightarrow> exn + provider" where
  "new_SimplyTranslateProvider base_url =
     bind_exn (py_rstrip_slash (py_or base_url (PStr [])))
       (\<lambda>b. Inr (SimplyTranslateProvider b))"

fun name :: "provider \<Rightarrow> pystr" where
  "name (DeepLProvider k t) = ascii ''deepl''"
| "name (LibreTranslateProvider b k) = ascii ''libre''"
| "name (LingvaProvider b) = ascii ''lingva''"
| "name (SimplyTranslateProvider b) = ascii ''simply''"

fun is_configured :: "provider \<Rightarrow> bool" where
  "is_configured (DeepLProvider k t) = t"
| "is_configured (LibreTranslateProvider b k) = (b \<noteq> [])"
| "is_configured (LingvaProvider b) = (b \<noteq> [])"
| "is_configured (SimplyTranslateProvider b) = (b \<noteq> [])"

text \<open>\<open>target_lang.split("-")[0].lower()\<close>\<close>

definition short_code :: "unicode \<Rightarrow> pystr \<Rightarrow> pystr" where
  "short_code U target_lang = lower U (takeWhile (\<lambda>c. c \<noteq> 45) target_lang)"

text \<open>The body of the \<open>try\<close> block of \<open>DeepLProvider.translate\<close>, after the client answered.\<close>

definition deepl_result :: "unicode \<Rightarrow> pyval \<times> pyval \<Rightarrow> exn + pystr \<times> pyval" where
  "deepl_result U res =
     bind_exn (py_upper U (py_or (fst res) (PStr [])))
       (\<lambda>detected. Inr (detected, py_or (snd res) (PStr [])))"

text \<open>
  The detection step of \<open>LibreTranslateProvider.translate\<close>: the value of
  \<open>detected_lang\<close> when its \<open>try\<close> block is left, by its end or by an exception.
\<close>

definition libre_payload :: "pystr \<Rightarrow> (pystr \<times> pystr) list \<Rightarrow> (pystr \<times> pystr) list" where
  "libre_payload api_key items =
     (if api_key \<noteq> [] then items @ [(ascii ''api_key'', api_key)] else items)"

definition libre_detected :: "unicode \<Rightarrow> pyval \<Rightarrow> exn + pystr" where
  "libre_detected U det_json =
     (case det_json of
        PList (x # xs) \<Rightarrow>
          bind_exn (py_get x (ascii ''language'') PNone)
            (\<lambda>l. py_upper U (py_or l (PStr [])))
      | _ \<Rightarrow> Inr [])"

definition libre_detect :: "unicode \<Rightarrow> world \<Rightarrow> pystr \<Rightarrow> pystr \<Rightarrow> pystr \<Rightarrow> pystr" where
  "libre_detect U W base_url api_key txt =
     (case http W (PostForm (base_url @ ascii ''/detect'')
                     (libre_payload api_key [(ascii ''q'', txt)])) of
        Raises \<Rightarrow> []
      | Response status body \<Rightarrow>
          (if status = 200 then
             (case body of
                None \<Rightarrow> []
              | Some det_json \<Rightarrow>
                  (case libre_detected U det_json of Inl e \<Rightarrow> [] | Inr d \<Rightarrow> d))
           else []))"

text \<open>The bodies of the \<open>try\<close> blocks that read a translation out of a JSON answer.\<close>

definition libre_result :: "pystr \<Rightarrow> pyval \<Rightarrow> exn + pystr \<times> pyval" where
  "libre_result detected_lang data =
     bind_exn (py_get data (ascii ''translatedText'') (PStr []))
       (\<lambda>translated. Inr (detected_lang, translated))"

definition lingva_result :: "unicode \<Rightarrow> pyval \<Rightarrow> exn + pystr \<times> pyval" where
  "lingva_result U data =
     bind_exn (py_get data (ascii ''translation'') (PStr [])) (\<lambda>translated.
     bind_exn (py_get data (ascii ''info'') PNone) (\<lambda>info0.
     (let info = py_or info0 (PDict []) in
      bind_exn (py_get info (ascii ''detectedSource'') PNone) (\<lambda>a.
      bind_exn (if truthy a then Inr a
                else bind_exn (py_get info (ascii ''source'') PNone)
                       (\<lambda>b. Inr (py_or b (PStr [])))) (\<lambda>d.
      bind_exn (py_upper U d) (\<lambda>detected. Inr (detected, translated)))))))"

definition simply_result :: "unicode \<Rightarrow> pyval \<Rightarrow> exn + pystr \<times> pyval" where
  "simply_result U data =
     bind_exn (py_get data (ascii ''translation'') PNone) (\<lambda>a.
     bind_exn (if truthy a then Inr a
               else bind_exn (py_get data (ascii ''result'') PNone)
                      (\<lambda>b. Inr (py_or b (PStr [])))) (\<lambda>translated.
     bind_exn (py_get data (ascii ''detected'') PNone) (\<lambda>c.
     bind_exn (if truthy c then Inr c
               else bind_exn (py_get data (ascii ''source'') PNone)
                      (\<lambda>e. Inr (py_or e (PStr [])))) (\<lambda>d.
     bind_exn (py_upper U d) (\<lambda>detected. Inr (detected, translated))))))"

text \<open>
  What follows the request inside the \<open>try\<close> block of the three HTTP providers: a
  status other than 200 returns \<open>None\<close>, and so does every exception.
\<close>

definition read_response ::
  "http_outcome \<Rightarrow> (pyval \<Rightarrow> exn + pystr \<times> pyval) \<Rightarrow> (pystr \<times> pyval) option" where
  "read_response out body_of =
     (case out of
        Raises \<Rightarrow> None
      | Response status body \<Rightarrow>
          (if status \<noteq> 200 then None
           else (case body of None \<Rightarrow> None | Some data \<Rightarrow> try_or_none (body_of data))))"

text \<open>
  \<open>translate\<close>: \<open>Inl\<close> is an exception that leaves the method, \<open>Inr None\<close> the absent
  result, \<open>Inr (Some (detected, translated))\<close> the pair it returns.
\<close>

fun translate ::
  "unicode \<Rightarrow> world \<Rightarrow> provider \<Rightarrow> pystr \<Rightarrow> pystr \<Rightarrow> exn + (pystr \<times> pyval) option" where
  "translate U W (DeepLProvider api_key translator) txt target_lang =
     (if \<not> translator then Inr None
      else Inr (case deepl_translateText W api_key txt target_lang of
                  None \<Rightarrow> None
                | Some res \<Rightarrow> try_or_none (deepl_result U res)))"
| "translate U W (LibreTranslateProvider base_url api_key) txt target_lang =
     (if \<not> is_configured (LibreTranslateProvider base_url api_key) then Inr None
      else
        (let target = short_code U target_lang;
             detected_lang = libre_detect U W base_url api_key txt;
             tx_payload = libre_payload api_key
               [(ascii ''q'', txt), (ascii ''source'', ascii ''auto''),
                (ascii ''target'', target), (ascii ''format'', ascii ''text'')]
         in Inr (read_response (http W (PostForm (base_url @ ascii ''/translate'') tx_payload))
                   (libre_result detected_lang))))"
| "translate U W (LingvaProvider base_url) txt target_lang =
     (if \<not> is_configured (LingvaProvider base_url) then Inr None
      else
        (let target = short_code U target_lang in
         bind_exn (quote txt) (\<lambda>query.
           Inr (read_response
                  (http W (Get (base_url @ ascii ''/api/v1/auto/'' @ target @ ascii ''/'' @ query)))
                  (lingva_result U)))))"
| "translate U W (SimplyTranslateProvider base_url) txt target_lang =
     (if \<not> is_configured (SimplyTranslateProvider base_url) then Inr None
      else
        (let target = short_code U target_lang;
             payload = [(ascii ''from'', ascii ''auto''), (ascii ''to'', target),
                        (ascii ''text'', txt)]
         in Inr (read_response (http W (PostJson (base_url @ ascii ''/api/translate'') payload))
                   (simply_result U))))"

text \<open>
  \<open>build_provider_chain\<close>. \<open>all_map[name]\<close> raises \<open>KeyError\<close> for a name that is none
  of the four.
\<close>

fun configured_in_order :: "(pystr \<times> provider) list \<Rightarrow> pystr list \<Rightarrow> exn + provider list" where
  "configured_in_order all_map [] = Inr []"
| "configured_in_order all_map (n # ns) =
     (case map_of all_map n of
        None \<Rightarrow> Inl KeyError
      | Some prov \<Rightarrow>
          bind_exn (configured_in_order all_map ns)
            (\<lambda>chain. Inr (if is_configured prov then prov # chain else chain)))"

definition PROVIDER_NAMES :: "pystr list" where
  "PROVIDER_NAMES = [ascii ''deepl'', ascii ''libre'', ascii ''lingva'', ascii ''simply'']"

text \<open>\<open>selected = (cfg.get("provider") or "deepl").lower()\<close>\<close>

definition selected_provider :: "unicode \<Rightarrow> settings_dict \<Rightarrow> exn + pystr" where
  "selected_provider U cfg =
     py_lower U (py_or (cfg_get cfg (ascii ''provider'')) (PStr (ascii ''deepl'')))"

text \<open>The four constructor calls and \<open>all_map\<close>, in the order of its keys.\<close>

definition all_variants :: "unicode \<Rightarrow> world \<Rightarrow> settings_dict \<Rightarrow> exn + (pystr \<times> provider) list" where
  "all_variants U W cfg =
     bind_exn (new_DeepLProvider U W (cfg_get cfg (ascii ''deepl_api_key''))) (\<lambda>p_deepl.
     bind_exn (new_LibreTranslateProvider U (cfg_get cfg (ascii ''libre_url''))
                 (cfg_get cfg (ascii ''libre_api_key''))) (\<lambda>p_libre.
     bind_exn (new_LingvaProvider (cfg_get cfg (ascii ''lingva_url''))) (\<lambda>p_lingva.
     bind_exn (new_SimplyTranslateProvider (cfg_get cfg (ascii ''simply_url''))) (\<lambda>p_simply.
     Inr [(ascii ''deepl'', p_deepl), (ascii ''libre'', p_libre),
          (ascii ''lingva'', p_lingva), (ascii ''simply'', p_simply)]))))"

definition build_provider_chain :: "unicode \<Rightarrow> world \<Rightarrow> settings_dict \<Rightarrow> exn + provider list" where
  "build_provider_chain U W cfg =
     bind_exn (selected_provider U cfg) (\<lambda>selected.
     bind_exn (all_variants U W cfg) (\<lambda>all_map.
     (let order = selected # filter (\<lambda>k. k \<noteq> selected) (map fst all_map)
      in bind_exn (configured_in_order all_map order) (\<lambda>chain.
           if chain = [] then
             (case map_of all_map selected of
                None \<Rightarrow> Inl KeyError
              | Some prov \<Rightarrow> Inr [prov])
           else Inr chain))))"

text \<open>
  \<open>translate_via_chain\<close>. The first component lists, in order, the providers whose
  \<open>translate\<close> was called; the second is what the function returns or raises.
  \<open>res[1].strip()\<close> raises \<open>AttributeError\<close> when the translation is not a string.
\<close>

fun translate_via_chain ::
  "unicode \<Rightarrow> world \<Rightarrow> provider list \<Rightarrow> pystr \<Rightarrow> pystr \<Rightarrow>
     provider list \<times> (exn + (pystr \<times> pystr \<times> pystr) option)" where
  "translate_via_chain U W [] txt target_lang = ([], Inr None)"
| "translate_via_chain U W (prov # rest) txt target_lang =
     (case translate U W prov txt target_lang of
        Inl e \<Rightarrow> ([prov], Inl e)
      | Inr None \<Rightarrow>
          (let r = translate_via_chain U W rest txt target_lang in (prov # fst r, snd r))
      | Inr (Some (detected, translated)) \<Rightarrow>
          (case translated of
             PStr t \<Rightarrow>
               (if strip U t \<noteq> [] then ([prov], Inr (Some (name prov, detected, t)))
                else
                  (let r = translate_via_chain U W rest txt target_lang
                   in (prov # fst r, snd r)))
           | _ \<Rightarrow> ([prov], Inl AttributeError)))"

subsection \<open>What one provider's answer means to the dispatcher\<close>

text \<open>
  A provider yields nothing when its \<open>translate\<close> returns \<open>None\<close> or a translation that
  is empty after trimming; it succeeds with \<open>(detected, t)\<close> when it returns that pair and
  \<open>t\<close> is not empty after trimming.
\<close>

definition yields_nothing :: "unicode \<Rightarrow> world \<Rightarrow> pystr \<Rightarrow> pystr \<Rightarrow> provider \<Rightarrow> bool" where
  "yields_nothing U W txt target_lang prov =
     (case translate U W prov txt target_lang of
        Inr None \<Rightarrow> True
      | Inr (Some (detected, PStr t)) \<Rightarrow> strip U t = []
      | _ \<Rightarrow> False)"

definition succeeds_with ::
  "unicode \<Rightarrow> world \<Rightarrow> pystr \<Rightarrow> pystr \<Rightarrow> provider \<Rightarrow> pystr \<Rightarrow> pystr \<Rightarrow> bool" where
  "succeeds_with U W txt target_lang prov detected t =
     (translate U W prov txt target_lang = Inr (Some (detected, PStr t)) \<and> strip U t \<noteq> [])"

subsection \<open>The chain the specification describes\<close>

text \<open>
  The priority order of the specification: the variant of the selected name first, then
  the other variants in the order they were given. The chain is what \<open>is_configured\<close>
  keeps of it, or the selected variant alone when it keeps nothing.
\<close>

definition priority_order :: "pystr \<Rightarrow> provider list \<Rightarrow> provider list" where
  "priority_order sel provs =
     filter (\<lambda>p. name p = sel) provs @ filter (\<lambda>p. name p \<noteq> sel) provs"

definition expected_chain :: "pystr \<Rightarrow> provider list \<Rightarrow> provider list" where
  "expected_chain sel provs =
     (let kept = filter is_configured (priority_order sel provs)
      in if kept = [] then filter (\<lambda>p. name p = sel) provs else kept)"

text \<open>
  The settings record of the data model: each of the six fields is a string or absent
  (\<open>None\<close>).
\<close>

definition str_or_none :: "pyval \<Rightarrow> bool" where
  "str_or_none v = (case v of PNone \<Rightarrow> True | PStr s \<Rightarrow> True | _ \<Rightarrow> False)"

definition SETTING_KEYS :: "pystr list" where
  "SETTING_KEYS =
     [ascii ''provider'', ascii ''deepl_api_key'', ascii ''libre_url'', ascii ''libre_api_key'',
      ascii ''lingva_url'', ascii ''simply_url'']"

definition well_typed_settings :: "settings_dict \<Rightarrow> bool" where
  "well_typed_settings cfg = list_all (\<lambda>k. str_or_none (cfg_get cfg k)) SETTING_KEYS"

subsection \<open>The variants the specification describes\<close>

text \<open>
  What the merged settings say of each variant, a field that is absent or empty counting
  as the empty string: the selected name (the primary variant when none is given), lower
  case; the primary variant with the trimmed key, configured when the key is not empty
  and its client could be created; the self-hosted variant with its URL without trailing
  slashes and its trimmed key; the two mirrors with their URLs without trailing slashes.
\<close>

definition field_str :: "settings_dict \<Rightarrow> pystr \<Rightarrow> pystr" where
  "field_str cfg k = (case cfg_get cfg k of PStr s \<Rightarrow> s | _ \<Rightarrow> [])"

definition expected_selected :: "unicode \<Rightarrow> settings_dict \<Rightarrow> pystr" where
  "expected_selected U cfg =
     lower U (if field_str cfg (ascii ''provider'') = [] then ascii ''deepl''
              else field_str cfg (ascii ''provider''))"

definition expected_variants :: "unicode \<Rightarrow> world \<Rightarrow> settings_dict \<Rightarrow> provider list" where
  "expected_variants U W cfg =
     (let key = strip U (field_str cfg (ascii ''deepl_api_key''))
      in [DeepLProvider key (key \<noteq> [] \<and> deepl_Translator_ok W key),
          LibreTranslateProvider (rstrip_slash (field_str cfg (ascii ''libre_url'')))
            (strip U (field_str cfg (ascii ''libre_api_key''))),
          LingvaProvider (rstrip_slash (field_str cfg (ascii ''lingva_url''))),
          SimplyTranslateProvider (rstrip_slash (field_str cfg (ascii ''simply_url'')))])"

section \<open>The classifier and the pipeline (app.py)\<close>

text \<open>The module-level settings read from the environment when the module is loaded.\<close>

record env =
  DEFAULT_PROVIDER :: pystr
  DEFAULT_DEEPL_KEY :: pystr
  DEFAULT_LIBRE_URL :: pystr
  DEFAULT_LIBRE_KEY :: pystr
  DEFAULT_LINGVA_URL :: pystr
  DEFAULT_SIMPLY_URL :: pystr
  MAX_INPUT_CHARS :: int
  SHOW_SOURCE_LANG :: bool
  IGNORE_NUMERIC_LIKE :: bool
  AUTO_MIN_WORDS :: int
  ENV_BLACKLIST :: "pystr list"
  SKIP_ROMAN_HINDI :: bool
  ROMAN_HINDI_STOPWORDS :: "pystr list"
  ROMAN_HINDI_MIN_MATCHES :: int

text \<open>The values the settings take when no environment variable is set.\<close>

definition default_env :: env where
  "default_env =
     \<lparr>DEFAULT_PROVIDER = ascii ''deepl'', DEFAULT_DEEPL_KEY = [], DEFAULT_LIBRE_URL = [],
      DEFAULT_LIBRE_KEY = [], DEFAULT_LINGVA_URL = [], DEFAULT_SIMPLY_URL = [],
      MAX_INPUT_CHARS = 1800, SHOW_SOURCE_LANG = True, IGNORE_NUMERIC_LIKE = True,
      AUTO_MIN_WORDS = 2, ENV_BLACKLIST = [], SKIP_ROMAN_HINDI = True,
      ROMAN_HINDI_STOPWORDS =
        map ascii [''kuch'', ''bhi'', ''apne'', ''apna'', ''apni'', ''hisab'', ''mat'', ''karo'',
          ''kr'', ''karen'', ''hai'', ''hota'', ''hoti'', ''hote'', ''ye'', ''yaar'', ''bhai'',
          ''nahi'', ''nahin'', ''kyu'', ''kyun'', ''kya'', ''mera'', ''meri'', ''mere'', ''tera'',
          ''teri'', ''tere'', ''hum'', ''ham'', ''tha'', ''thi'', ''the'', ''vo'', ''woh'', ''se'',
          ''ko'', ''mein'', ''me''],
      ROMAN_HINDI_MIN_MATCHES = 2\<rparr>"

subsection \<open>Regular expressions\<close>

text \<open>
  The patterns of the module are anchored and used with \<open>fullmatch\<close>, so each denotes a
  set of strings; membership is decided by derivatives. \<open>\d\<close> is a decimal digit and
  \<open>\s\<close> a whitespace character of the runtime's tables.
\<close>

datatype rx =
    Nul
  | Eps
  | Chr "nat \<Rightarrow> bool"
  | Cat rx rx
  | Alt rx rx
  | Star rx

fun nullable :: "rx \<Rightarrow> bool" where
  "nullable Nul = False"
| "nullable Eps = True"
| "nullable (Chr p) = False"
| "nullable (Cat r s) = (nullable r \<and> nullable s)"
| "nullable (Alt r s) = (nullable r \<or> nullable s)"
| "nullable (Star r) = True"

fun deriv :: "nat \<Rightarrow> rx \<Rightarrow> rx" where
  "deriv c Nul = Nul"
| "deriv c Eps = Nul"
| "deriv c (Chr p) = (if p c then Eps else Nul)"
| "deriv c (Cat r s) =
     (if nullable r then Alt (Cat (deriv c r) s) (deriv c s) else Cat (deriv c r) s)"
| "deriv c (Alt r s) = Alt (deriv c r) (deriv c s)"
| "deriv c (Star r) = Cat (deriv c r) (Star r)"

definition fullmatch :: "rx \<Rightarrow> pystr \<Rightarrow> bool" where
  "fullmatch r s = nullable (foldl (\<lambda>q c. deriv c q) r s)"

definition cats :: "rx list \<Rightarrow> rx" where
  "cats rs = foldr Cat rs Eps"

definition opt :: "rx \<Rightarrow> rx" where
  "opt r = Alt r Eps"

definition lit :: "nat \<Rightarrow> rx" where
  "lit a = Chr (\<lambda>c. c = a)"

text \<open>\<open>r{1,n}\<close> and \<open>r{n}\<close>\<close>

fun upto_times :: "nat \<Rightarrow> rx \<Rightarrow> rx" where
  "upto_times 0 r = Eps"
| "upto_times (Suc n) r = opt (Cat r (upto_times n r))"

fun times :: "nat \<Rightarrow> rx \<Rightarrow> rx" where
  "times 0 r = Eps"
| "times (Suc n) r = Cat r (times n r)"

definition ws :: "unicode \<Rightarrow> rx" where
  "ws U = Star (Chr (isspace U))"

definition digit :: "unicode \<Rightarrow> rx" where
  "digit U = Chr (isdecimal U)"

definition digits_1_to :: "unicode \<Rightarrow> nat \<Rightarrow> rx" where
  "digits_1_to U n = Cat (digit U) (upto_times (n - 1) (digit U))"

definition R_SCORE :: "unicode \<Rightarrow> rx" where
  "R_SCORE U = cats [ws U, digits_1_to U 4, ws U, lit 47, ws U, digits_1_to U 4, ws U]"

definition R_NUMBER :: "unicode \<Rightarrow> rx" where
  "R_NUMBER U =
     cats [ws U, opt (Chr (\<lambda>c. c = 43 \<or> c = 45)), digit U, Star (digit U),
           opt (cats [Chr (\<lambda>c. c = 46 \<or> c = 44), digit U, Star (digit U)]),
           ws U, opt (lit 37), ws U]"

definition R_TIME :: "unicode \<Rightarrow> rx" where
  "R_TIME U =
     cats [ws U, digits_1_to U 2, lit 58, times 2 (digit U),
           opt (Cat (lit 58) (times 2 (digit U))), ws U]"

text \<open>The back-reference of \<open>R_DATE\<close> repeats the separator the group matched.\<close>

definition date_with :: "unicode \<Rightarrow> nat \<Rightarrow> rx" where
  "date_with U sep =
     cats [ws U, digits_1_to U 4, lit sep, digits_1_to U 2, lit sep, digits_1_to U 4, ws U]"

definition R_DATE :: "unicode \<Rightarrow> rx" where
  "R_DATE U = Alt (date_with U 47) (Alt (date_with U 45) (date_with U 46))"

definition R_MIXED_NUM :: "unicode \<Rightarrow> rx" where
  "R_MIXED_NUM U =
     (let cls = Chr (\<lambda>c. isdecimal U c \<or> c = 45 \<or> c = 43 \<or> c = 40 \<or> c = 41 \<or> c = 91 \<or>
                           c = 93 \<or> isspace U c)
      in cats [ws U, times 5 cls, Star cls, ws U])"

text \<open>
  \<open>re.findall\<close> of a pattern that is one or more characters of a class: the maximal
  runs of such characters, from left to right. \<open>cur\<close> is the run being read, reversed.
\<close>

fun runs_from :: "(nat \<Rightarrow> bool) \<Rightarrow> pystr \<Rightarrow> pystr \<Rightarrow> pystr list" where
  "runs_from p cur [] = (if cur = [] then [] else [rev cur])"
| "runs_from p cur (c # cs) =
     (if p c then runs_from p (c # cur) cs
      else (if cur = [] then [] else [rev cur]) @ runs_from p [] cs)"

definition runs :: "(nat \<Rightarrow> bool) \<Rightarrow> pystr \<Rightarrow> pystr list" where
  "runs p s = runs_from p [] s"

text \<open>\<open>re.sub(r"\s+", " ", s)\<close>; \<open>in_run\<close> tells that the previous character was whitespace.\<close>

fun sub_ws_from :: "unicode \<Rightarrow> bool \<Rightarrow> pystr \<Rightarrow> pystr" where
  "sub_ws_from U in_run [] = []"
| "sub_ws_from U in_run (c # cs) =
     (if isspace U c then (if in_run then [] else [32]) @ sub_ws_from U True cs
      else c # sub_ws_from U False cs)"

subsection \<open>The heuristics\<close>

definition looks_numeric_like :: "unicode \<Rightarrow> pystr \<Rightarrow> bool" where
  "looks_numeric_like U t =
     (if t = [] then True
      else
        (let tt = strip U t; alpha = length (filter (isalpha U) tt) in
         if alpha = 0 then True
         else if list_ex (\<lambda>r. fullmatch r tt)
                   [R_SCORE U, R_NUMBER U, R_TIME U, R_DATE U, R_MIXED_NUM U] then True
         else False))"

definition has_non_ascii_letter :: "unicode \<Rightarrow> pystr \<Rightarrow> bool" where
  "has_non_ascii_letter U s = list_ex (\<lambda>c. c > 127 \<and> isalpha U c) s"

definition word_count :: "unicode \<Rightarrow> pystr \<Rightarrow> nat" where
  "word_count U s = length (runs (\<lambda>c. isalnum U c \<or> c = 95) s)"

definition normalize :: "unicode \<Rightarrow> pystr \<Rightarrow> pystr" where
  "normalize U s = lower U (strip U (sub_ws_from U False s))"

definition ascii_only :: "pystr \<Rightarrow> bool" where
  "ascii_only s = list_all (\<lambda>c. c < 128) s"

definition is_roman_hindi :: "unicode \<Rightarrow> env \<Rightarrow> pystr \<Rightarrow> bool" where
  "is_roman_hindi U E s =
     (if \<not> SKIP_ROMAN_HINDI E then False
      else
        (let t = lower U s in
         if strip U t = [] \<or> \<not> ascii_only t then False
         else
           (let toks = set (runs (\<lambda>c. 97 \<le> c \<and> c \<le> 122) t);
                hits = length (filter (\<lambda>w. w \<in> toks) (ROMAN_HINDI_STOPWORDS E))
            in int hits \<ge> ROMAN_HINDI_MIN_MATCHES E)))"

text \<open>\<open>if guild_id:\<close> holds for an identifier that is neither \<open>None\<close> nor zero.\<close>

definition has_guild :: "int option \<Rightarrow> bool" where
  "has_guild guild_id = (case guild_id of None \<Rightarrow> False | Some g \<Rightarrow> g \<noteq> 0)"

definition guild_blacklist :: "unicode \<Rightarrow> env \<Rightarrow> store \<Rightarrow> int option \<Rightarrow> pystr set" where
  "guild_blacklist U E S guild_id =
     set (ENV_BLACKLIST E) \<union>
       (if has_guild guild_id then set (list_blacklist U S (the guild_id)) else {})"

datatype reason = Blank | TooLong nat | NumericLike | RomanHindi | LowSignal

definition skip_reason :: "unicode \<Rightarrow> env \<Rightarrow> pystr \<Rightarrow> bool \<Rightarrow> reason option" where
  "skip_reason U E txt force =
     (if strip U txt = [] then Some Blank
      else if int (length txt) > MAX_INPUT_CHARS E then Some (TooLong (length txt))
      else if IGNORE_NUMERIC_LIKE E \<and> looks_numeric_like U txt then Some NumericLike
      else if \<not> force then
        (if is_roman_hindi U E txt then Some RomanHindi
         else if int (word_count U txt) < AUTO_MIN_WORDS E \<and> \<not> has_non_ascii_letter U txt
           then Some LowSignal
         else None)
      else None)"

subsection \<open>The pipeline\<close>

text \<open>
  The dictionary \<open>provider_settings\<close> of \<open>translate_pipeline\<close>: the process-wide
  defaults, then \<open>provider_settings.update(st)\<close> with the tenant's stored record.
  \<open>get_settings\<close> may add the tenant's record to the store, so the store is returned too.
\<close>

definition default_settings :: "env \<Rightarrow> settings_dict" where
  "default_settings E =
     [ascii ''provider'' \<mapsto> PStr (DEFAULT_PROVIDER E),
      ascii ''deepl_api_key'' \<mapsto> PStr (DEFAULT_DEEPL_KEY E),
      ascii ''libre_url'' \<mapsto> PStr (DEFAULT_LIBRE_URL E),
      ascii ''libre_api_key'' \<mapsto> PStr (DEFAULT_LIBRE_KEY E),
      ascii ''lingva_url'' \<mapsto> PStr (DEFAULT_LINGVA_URL E),
      ascii ''simply_url'' \<mapsto> PStr (DEFAULT_SIMPLY_URL E)]"

definition provider_settings :: "env \<Rightarrow> store \<Rightarrow> int option \<Rightarrow> store \<times> settings_dict" where
  "provider_settings E S guild_id =
     (if has_guild guild_id then
        (let r = get_settings S (the guild_id) in (fst r, default_settings E ++ snd r))
      else (S, default_settings E))"

text \<open>What \<open>translate_pipeline\<close> does with an accepted result of the dispatcher.\<close>

definition post_filter ::
  "unicode \<Rightarrow> env \<Rightarrow> store \<Rightarrow> int option \<Rightarrow> pystr \<Rightarrow> bool \<Rightarrow> pystr \<times> pystr \<times> pystr \<Rightarrow>
     (pystr \<times> pystr \<times> pystr) option" where
  "post_filter U E S guild_id txt apply_blacklist result =
     (let provider_name = fst result; detected = fst (snd result);
          translated = snd (snd result) in
      if apply_blacklist \<and> detected \<noteq> [] \<and> upper U detected \<in> guild_blacklist U E S guild_id
        then None
      else if startswith (upper U detected) (ascii ''EN'') then None
      else if normalize U translated = normalize U txt then None
      else
        (let header =
               (if SHOW_SOURCE_LANG E \<and> detected \<noteq> [] then
                  ascii ''Translated from '' @ upper U detected @ ascii '' via '' @
                    provider_name @ [58, 10]
                else [])
         in Some (provider_name, upper U detected, header @ translated)))"

definition translate_pipeline ::
  "unicode \<Rightarrow> world \<Rightarrow> env \<Rightarrow> store \<Rightarrow> int option \<Rightarrow> pystr \<Rightarrow> bool \<Rightarrow> bool \<Rightarrow>
     store \<times> (exn + (pystr \<times> pystr \<times> pystr) option)" where
  "translate_pipeline U W E S guild_id txt force apply_blacklist =
     (case skip_reason U E txt force of
        Some why \<Rightarrow> (S, Inr None)
      | None \<Rightarrow>
          (let ps = provider_settings E S guild_id; S1 = fst ps in
           case build_provider_chain U W (snd ps) of
             Inl e \<Rightarrow> (S1, Inl e)
           | Inr chain \<Rightarrow>
               (case snd (translate_via_chain U W chain txt (ascii ''EN-US'')) of
                  Inl e \<Rightarrow> (S1, Inl e)
                | Inr None \<Rightarrow> (S1, Inr None)
                | Inr (Some result) \<Rightarrow>
                    (S1, Inr (post_filter U E S1 guild_id txt apply_blacklist result)))))"

section \<open>Example inputs\<close>

text \<open>
  A store in which tenant 5 has chosen a provider and a LibreTranslate URL, and an
  environment whose only non-default setting is a process-wide DeepL key.
\<close>

definition example_store :: store where
  "example_store =
     \<lparr>guilds = Map.empty, blacklist = Map.empty,
      settings = [ascii ''5'' \<mapsto> [ascii ''provider'' \<mapsto> PStr (ascii ''deepl''),
                                  ascii ''libre_url'' \<mapsto> PStr (ascii ''X'')]]\<rparr>"

definition example_env :: env where
  "example_env = default_env\<lparr>DEFAULT_DEEPL_KEY := ascii ''k''\<rparr>"

text \<open>
  Two worlds. In the silent one every call to a back-end raises. In the other a
  \<open>GET\<close> raises, a JSON \<open>POST\<close> is answered by a SimplyTranslate instance that detected
  French, and a form \<open>POST\<close> by a LibreTranslate instance whose answers carry a
  translation and no language.
\<close>

definition silent_world :: world where
  "silent_world =
     \<lparr>deepl_Translator_ok = (\<lambda>k. True), deepl_translateText = (\<lambda>k t l. None),
      http = (\<lambda>r. Raises)\<rparr>"

definition example_world :: world where
  "example_world =
     \<lparr>deepl_Translator_ok = (\<lambda>k. True), deepl_translateText = (\<lambda>k t l. None),
      http = (\<lambda>r. case r of
                Get u \<Rightarrow> Raises
              | PostJson u p \<Rightarrow>
                  Response 200 (Some (PDict [(ascii ''translation'', PStr (ascii ''Bonjour traduit'')),
                                             (ascii ''detected'', PStr (ascii ''fr''))]))
              | PostForm u p \<Rightarrow>
                  Response 200 (Some (PDict [(ascii ''translatedText'',
                                              PStr (ascii ''hello everyone''))])))\<rparr>"

text \<open>
  Merged settings that select SimplyTranslate and also give a LibreTranslate URL.
\<close>

definition example_settings :: settings_dict where
  "example_settings =
     [ascii ''provider'' \<mapsto> PStr (ascii ''Simply''),
      ascii ''libre_url'' \<mapsto> PStr (ascii ''http://l/''),
      ascii ''simply_url'' \<mapsto> PStr (ascii ''http://s'')]"

text \<open>The default environment with a process-wide blacklist that holds French.\<close>

definition blacklist_env :: env where
  "blacklist_env = default_env\<lparr>ENV_BLACKLIST := [ascii ''FR'']\<rparr>"

text \<open>A world whose back-ends answer every request with a translation that is a number.\<close>

definition malformed_world :: world where
  "malformed_world =
     \<lparr>deepl_Translator_ok = (\<lambda>k. True), deepl_translateText = (\<lambda>k t l. None),
      http = (\<lambda>r. Response 200 (Some (PDict [(ascii ''translation'', PNum 5)])))\<rparr>"

text \<open>
  A world in which SimplyTranslate answers with a number for a translation and
  LibreTranslate with a proper one; an environment whose default provider is none of the
  four and that gives a LibreTranslate URL; and settings that fill every field.
\<close>

definition mixed_world :: world where
  "mixed_world =
     \<lparr>deepl_Translator_ok = (\<lambda>k. True), deepl_translateText = (\<lambda>k t l. None),
      http = (\<lambda>r. case r of
                Get u \<Rightarrow> Raises
              | PostJson u p \<Rightarrow> Response 200 (Some (PDict [(ascii ''translation'', PNum 5)]))
              | PostForm u p \<Rightarrow>
                  Response 200 (Some (PDict [(ascii ''translatedText'',
                                              PStr (ascii ''hello everyone''))])))\<rparr>"

definition google_env :: env where
  "google_env =
     default_env\<lparr>DEFAULT_PROVIDER := ascii ''google'', DEFAULT_LIBRE_URL := ascii ''http://l''\<rparr>"

definition full_settings :: settings_dict where
  "full_settings =
     [ascii ''provider'' \<mapsto> PStr (ascii ''Lingva''),
      ascii ''deepl_api_key'' \<mapsto> PStr (ascii '' key ''),
      ascii ''libre_url'' \<mapsto> PStr (ascii ''http://l/''),
      ascii ''libre_api_key'' \<mapsto> PStr (ascii ''lk''),
      ascii ''lingva_url'' \<mapsto> PStr (ascii ''http://g''),
      ascii ''simply_url'' \<mapsto> PStr []]"

section \<open>Verified properties\<close>

lemma upper_cp_fixed:
  assumes "upper_fixed U" and "d \<in> set (upper_cp U c)"
  shows "upper_cp U d = [d]"
proof (cases "c < 128")
  case True
  with assms(2) have "d < 128" "\<not> (97 \<le> d \<and> d \<le> 122)"
    by (auto simp: upper_cp_def split: if_splits)
  then show ?thesis by (auto simp: upper_cp_def)
next
  case False
  with assms(2) have "d \<in> set (u_upper U c)" by (simp add: upper_cp_def)
  moreover from assms(1) False have "list_all (\<lambda>d. upper_cp U d = [d]) (u_upper U c)"
    by (simp add: upper_fixed_def)
  ultimately show ?thesis by (simp add: list_all_iff)
qed

lemma upper_of_fixed: "\<forall>d\<in>set s. upper_cp U d = [d] \<Longrightarrow> upper U s = s"
  by (induction s) (auto simp: upper_def)

lemma set_strip: "set (strip U s) \<subseteq> set s"
proof -
  have "set (rstrip U t) \<subseteq> set t" for t
    using set_dropWhileD [of _ "isspace U" "rev t"] by (auto simp: rstrip_def)
  moreover have "set (lstrip U s) \<subseteq> set s"
    by (auto simp: lstrip_def dest: set_dropWhileD)
  ultimately show ?thesis unfolding strip_def by blast
qed

lemma upper_strip_upper:
  assumes "upper_fixed U"
  shows "upper U (strip U (upper U x)) = strip U (upper U x)"
proof (rule upper_of_fixed, rule ballI)
  fix d assume "d \<in> set (strip U (upper U x))"
  then have "d \<in> set (upper U x)" using set_strip by blast
  then obtain c where "d \<in> set (upper_cp U c)" by (auto simp: upper_def)
  with assms show "upper_cp U d = [d]" by (rule upper_cp_fixed)
qed

lemma list_of_upd: "list_of (m(g \<mapsto> l)) h = (if h = g then l else list_of m h)"
  by (simp add: list_of_def)

lemma inv_add_channel: "store_inv U S \<Longrightarrow> store_inv U (add_channel S g c)"
  by (simp add: store_inv_def add_channel_def Let_def list_of_upd)

lemma inv_remove_channel: "store_inv U S \<Longrightarrow> store_inv U (remove_channel S g c)"
  by (simp add: store_inv_def remove_channel_def Let_def list_of_upd)

lemma inv_add_blacklist:
  "upper_fixed U \<Longrightarrow> store_inv U S \<Longrightarrow> store_inv U (add_blacklist U S g code)"
  by (simp add: store_inv_def add_blacklist_def Let_def list_of_upd upper_strip_upper)

lemma inv_remove_blacklist: "store_inv U S \<Longrightarrow> store_inv U (remove_blacklist U S g code)"
  by (auto simp add: store_inv_def remove_blacklist_def Let_def list_of_upd list_all_iff)

lemma inv_apply_op: "upper_fixed U \<Longrightarrow> store_inv U S \<Longrightarrow> store_inv U (apply_op U S x)"
  by (cases x) (simp_all add: inv_add_channel inv_remove_channel inv_add_blacklist inv_remove_blacklist)

lemma inv_foldl:
  "upper_fixed U \<Longrightarrow> store_inv U S \<Longrightarrow> store_inv U (foldl (apply_op U) S ops)"
  by (induction ops arbitrary: S) (simp_all add: inv_apply_op)

lemma inv_empty: "store_inv U empty_store"
  by (simp add: store_inv_def empty_store_def list_of_def)

text \<open>
  C9. Starting from the empty store, after any sequence of \<open>add_channel\<close>,
  \<open>remove_channel\<close>, \<open>add_blacklist\<close> and \<open>remove_blacklist\<close> calls, no tenant's
  channel list or blacklist holds an entry twice, and every stored blacklist code is
  upper-cased (\<open>code.upper() == code\<close>), for a runtime whose upper-casing leaves its own
  output alone.
\<close>

theorem store_lists_distinct_upper:
  "upper_fixed U \<Longrightarrow> store_inv U (run_ops U ops)"
  unfolding run_ops_def by (rule inv_foldl [OF _ inv_empty])

lemma upper_fixed_ascii: "upper_fixed ascii_tables"
  by (simp add: upper_fixed_def ascii_tables_def upper_cp_def)

lemma str_nat_small: "n < 10 \<Longrightarrow> str_nat n = [48 + n]"
  by (subst str_nat.simps) simp

lemma str_nat_big: "\<not> n < 10 \<Longrightarrow> str_nat n = str_nat (n div 10) @ [48 + n mod 10]"
  by (subst str_nat.simps) simp

lemmas py_eval = str_nat_small str_nat_big str_int_def g_key_def list_of_def
  upper_def upper_cp_def strip_def lstrip_def rstrip_def isspace_def lower_def Let_def

theorem store_lists_distinct_upper_witness:
  "upper_fixed ascii_tables \<and>
   store_inv ascii_tables
     (run_ops ascii_tables
        [AddBlacklist 7 (ascii '' fr ''), AddChannel 7 42, AddBlacklist 7 (ascii ''FR''),
         AddChannel 7 42, AddBlacklist 7 (ascii ''et''), RemoveBlacklist 7 (ascii ''Et'')]) \<and>
   list_of (blacklist (run_ops ascii_tables
        [AddBlacklist 7 (ascii '' fr ''), AddChannel 7 42, AddBlacklist 7 (ascii ''FR''),
         AddChannel 7 42, AddBlacklist 7 (ascii ''et''), RemoveBlacklist 7 (ascii ''Et'')])) (g_key 7)
     = [ascii ''FR''] \<and>
   list_of (guilds (run_ops ascii_tables
        [AddBlacklist 7 (ascii '' fr ''), AddChannel 7 42, AddBlacklist 7 (ascii ''FR''),
         AddChannel 7 42, AddBlacklist 7 (ascii ''et''), RemoveBlacklist 7 (ascii ''Et'')])) (g_key 7)
     = [ascii ''42'']"
proof -
  let ?ops = "[AddBlacklist 7 (ascii '' fr ''), AddChannel 7 42, AddBlacklist 7 (ascii ''FR''),
         AddChannel 7 42, AddBlacklist 7 (ascii ''et''), RemoveBlacklist 7 (ascii ''Et'')]"
  have u: "upper_fixed ascii_tables" by (rule upper_fixed_ascii)
  have i: "store_inv ascii_tables (run_ops ascii_tables ?ops)"
    by (rule store_lists_distinct_upper [OF u])
  have e: "run_ops ascii_tables ?ops
      = \<lparr>guilds = [ascii ''7'' \<mapsto> [ascii ''42'']], blacklist = [ascii ''7'' \<mapsto> [ascii ''FR'']], settings = Map.empty\<rparr>"
    by (simp add: run_ops_def empty_store_def add_blacklist_def add_channel_def remove_blacklist_def py_eval)
  have b: "list_of (blacklist (run_ops ascii_tables ?ops)) (g_key 7) = [ascii ''FR'']"
    by (subst e) (simp add: py_eval)
  have c: "list_of (guilds (run_ops ascii_tables ?ops)) (g_key 7) = [ascii ''42'']"
    by (subst e) (simp add: py_eval)
  from u i b c show ?thesis by blast
qed

lemma length_str_nat: "length (str_nat n) \<le> 1 + n div 10"
proof (induction n rule: str_nat.induct)
  case (1 n)
  show ?case
  proof (cases "n < 10")
    case True
    then show ?thesis by (simp add: str_nat_small)
  next
    case False
    with 1 have "length (str_nat (n div 10)) \<le> 1 + n div 10 div 10" by simp
    with False show ?thesis by (simp add: str_nat_big)
  qed
qed

text \<open>A secret of seven or more characters is longer than its rendering, so it is hidden.\<close>

lemma mask_secret_hides_long: "7 \<le> length v \<Longrightarrow> \<not> sublist v (mask_secret v)"
proof
  assume l: "7 \<le> length v" and s: "sublist v (mask_secret v)"
  from s have "length v \<le> length (mask_secret v)" by (rule sublist_length_le)
  moreover have "length (mask_secret v) \<le> 6 + length v div 10"
    using length_str_nat [of "length v"] by (simp add: mask_secret_def)
  ultimately show False using l by arith
qed

text \<open>
  C2. \<open>masked_settings\<close> renders a secret as its first four characters, an ellipsis and
  its length. For the three-character key \<open>abc\<close> stored under \<open>libre_api_key\<close> the
  rendering is \<open>abc\<dots>3\<close>, which contains the whole secret.
\<close>

theorem masked_settings_short_secret_in_full:
  "masked_settings [ascii ''libre_api_key'' \<mapsto> PStr (ascii ''abc'')] (ascii ''libre_api_key'')
     = Some (PStr (ascii ''abc'' @ [8230] @ ascii ''3'')) \<and>
   sublist (ascii ''abc'') (ascii ''abc'' @ [8230] @ ascii ''3'')"
  by (simp add: masked_settings_def masked_value_def SENSITIVE_KEYS_def mask_secret_def
      str_nat_small sublist_Cons_right prefix_Cons)

lemma foldl_set_field:
  "foldl set_field st kwargs = st ++ map_of (rev (filter (\<lambda>kv. snd kv \<noteq> PNone) kwargs))"
proof (induction kwargs arbitrary: st)
  case Nil
  show ?case by simp
next
  case (Cons kv kwargs)
  show ?case
  proof (cases "snd kv = PNone")
    case True
    then have "set_field st kv = st" by (simp add: set_field_def)
    with True show ?thesis by (simp add: Cons.IH)
  next
    case False
    then have "set_field st kv = st(fst kv \<mapsto> snd kv)" by (simp add: set_field_def)
    with False show ?thesis
      by (cases kv) (auto simp: Cons.IH map_add_def fun_eq_iff split: option.splits)
  qed
qed

lemma update_settings_eq:
  "update_settings S guild_id kwargs =
     ((fst (get_settings S guild_id))
        \<lparr>settings := (settings (fst (get_settings S guild_id)))
           (g_key guild_id \<mapsto> foldl set_field (snd (get_settings S guild_id)) kwargs)\<rparr>,
      foldl set_field (snd (get_settings S guild_id)) kwargs)"
  by (simp add: update_settings_def Let_def split: prod.splits)

lemma map_of_rev_distinct:
  "distinct (map fst xs) \<Longrightarrow> (k, v) \<in> set xs \<Longrightarrow> map_of (rev xs) k = Some v"
  by (simp add: distinct_rev rev_map [symmetric] del: rev_map) 

text \<open>
  C7 (as amended). \<open>update_settings\<close> stores every supplied field whose value is not
  \<open>None\<close>, the empty string included, and leaves every other field of the tenant's
  record, every other tenant's record, the channel lists and the blacklists as they
  were: a field that is not supplied, or supplied as \<open>None\<close>, keeps its prior value.
\<close>

theorem update_settings_merges_non_null:
  "update_settings S guild_id kwargs = (S', st') \<Longrightarrow>
     settings S' (g_key guild_id) = Some st' \<and>
     (\<forall>k. (\<forall>v. (k, v) \<in> set kwargs \<longrightarrow> v = PNone) \<longrightarrow>
          st' k = snd (get_settings S guild_id) k) \<and>
     (\<forall>k v. distinct (map fst kwargs) \<and> (k, v) \<in> set kwargs \<and> v \<noteq> PNone \<longrightarrow>
          st' k = Some v) \<and>
     (\<forall>g. g \<noteq> g_key guild_id \<longrightarrow> settings S' g = settings S g) \<and>
     guilds S' = guilds S \<and> blacklist S' = blacklist S"
proof -
  assume u: "update_settings S guild_id kwargs = (S', st')"
  let ?old = "snd (get_settings S guild_id)"
  let ?kept = "filter (\<lambda>kv. snd kv \<noteq> PNone) kwargs"
  from u have st: "st' = ?old ++ map_of (rev ?kept)"
    by (simp add: update_settings_eq foldl_set_field)
  from u have S': "S' = (fst (get_settings S guild_id))
        \<lparr>settings := (settings (fst (get_settings S guild_id)))(g_key guild_id \<mapsto> st')\<rparr>"
    by (auto simp add: update_settings_eq)
  have a: "settings S' (g_key guild_id) = Some st'" by (simp add: S')
  have b: "st' k = ?old k" if "\<forall>v. (k, v) \<in> set kwargs \<longrightarrow> v = PNone" for k
  proof -
    have "k \<notin> fst ` set (rev ?kept)" using that by auto
    then have "map_of (rev ?kept) k = None" by (rule map_of_eq_None_iff [THEN iffD2])
    then show ?thesis by (simp add: st map_add_def)
  qed
  have c: "st' k = Some v" if "distinct (map fst kwargs)" "(k, v) \<in> set kwargs" "v \<noteq> PNone" for k v
  proof -
    from that(1) have "distinct (map fst ?kept)" by (simp add: distinct_map_filter)
    moreover from that(2,3) have "(k, v) \<in> set ?kept" by simp
    ultimately have "map_of (rev ?kept) k = Some v" by (rule map_of_rev_distinct)
    then show ?thesis by (simp add: st map_add_def)
  qed
  have d: "settings S' g = settings S g" if "g \<noteq> g_key guild_id" for g
    using that by (simp add: S' get_settings_def Let_def)
  have e: "guilds S' = guilds S" "blacklist S' = blacklist S"
    by (simp_all add: S' get_settings_def Let_def)
  from a b c d e show ?thesis by blast
qed

theorem update_settings_merges_non_null_witness:
  "snd (update_settings example_store 5 [(ascii ''provider'', PStr (ascii ''lingva''))])
      (ascii ''libre_url'') = Some (PStr (ascii ''X'')) \<and>
   snd (update_settings example_store 5 [(ascii ''provider'', PStr (ascii ''lingva''))])
      (ascii ''provider'') = Some (PStr (ascii ''lingva''))"
proof -
  let ?kw = "[(ascii ''provider'', PStr (ascii ''lingva''))]"
  let ?r = "update_settings example_store 5 ?kw"
  have "?r = (fst ?r, snd ?r)" by simp
  from update_settings_merges_non_null [OF this]
  have b: "\<forall>k. (\<forall>v. (k, v) \<in> set ?kw \<longrightarrow> v = PNone) \<longrightarrow>
             snd ?r k = snd (get_settings example_store 5) k"
    and c: "\<forall>k v. distinct (map fst ?kw) \<and> (k, v) \<in> set ?kw \<and> v \<noteq> PNone \<longrightarrow> snd ?r k = Some v"
    by blast+
  have old: "snd (get_settings example_store 5) (ascii ''libre_url'') = Some (PStr (ascii ''X''))"
    by (simp add: get_settings_def example_store_def py_eval)
  have "\<forall>v. (ascii ''libre_url'', v) \<in> set ?kw \<longrightarrow> v = PNone" by simp
  with b old have 1: "snd ?r (ascii ''libre_url'') = Some (PStr (ascii ''X''))" by metis
  have "distinct (map fst ?kw) \<and> (ascii ''provider'', PStr (ascii ''lingva'')) \<in> set ?kw \<and>
        PStr (ascii ''lingva'') \<noteq> PNone" by simp
  with c have 2: "snd ?r (ascii ''provider'') = Some (PStr (ascii ''lingva''))" by blast
  from 1 2 show ?thesis by blast
qed

text \<open>
  C7 as stated fails: a supplied field with an empty value is merged. Tenant 5 has
  \<open>libre_url = X\<close>; after an update with \<open>libre_url = ""\<close> the stored value is empty.
\<close>

theorem update_settings_stores_empty_string:
  "snd (get_settings example_store 5) (ascii ''libre_url'') = Some (PStr (ascii ''X'')) \<and>
   snd (update_settings example_store 5 [(ascii ''libre_url'', PStr [])]) (ascii ''libre_url'')
     = Some (PStr [])"
  by (simp add: update_settings_def get_settings_def example_store_def set_field_def py_eval)

text \<open>
  C1 (as amended). The merge of step 2 is \<open>dict.update\<close>: for a tenant, a field of the
  merged settings is the tenant's stored value whenever the tenant's record has that
  key, whatever the value, and the process-wide default otherwise; without a tenant the
  defaults are used unchanged.
\<close>

theorem provider_settings_key_presence:
  "(has_guild guild_id \<longrightarrow>
      (\<forall>k. snd (provider_settings E S guild_id) k =
           (case snd (get_settings S (the guild_id)) k of
              Some v \<Rightarrow> Some v
            | None \<Rightarrow> default_settings E k))) \<and>
   (\<not> has_guild guild_id \<longrightarrow> provider_settings E S guild_id = (S, default_settings E))"
  by (simp add: provider_settings_def Let_def map_add_def)

theorem provider_settings_key_presence_witness:
  "has_guild (Some 5) \<and> \<not> has_guild None \<and>
   snd (provider_settings example_env example_store (Some 5)) (ascii ''libre_url'')
     = Some (PStr (ascii ''X'')) \<and>
   snd (provider_settings example_env example_store (Some 5)) (ascii ''deepl_api_key'')
     = Some (PStr (ascii ''k'')) \<and>
   provider_settings example_env example_store None
     = (example_store, default_settings example_env)"
proof -
  have g: "has_guild (Some 5)" and n: "\<not> has_guild None" by (simp_all add: has_guild_def)
  note t = provider_settings_key_presence [of "Some 5" example_env example_store]
  note u = provider_settings_key_presence [of None example_env example_store]
  have old1: "snd (get_settings example_store 5) (ascii ''libre_url'') = Some (PStr (ascii ''X''))"
    and old2: "snd (get_settings example_store 5) (ascii ''deepl_api_key'') = None"
    by (simp_all add: get_settings_def example_store_def py_eval)
  have d: "default_settings example_env (ascii ''deepl_api_key'') = Some (PStr (ascii ''k''))"
    by (simp add: default_settings_def example_env_def default_env_def)
  from t g old1 have 1: "snd (provider_settings example_env example_store (Some 5)) (ascii ''libre_url'')
     = Some (PStr (ascii ''X''))" by simp
  from t g old2 d have 2: "snd (provider_settings example_env example_store (Some 5)) (ascii ''deepl_api_key'')
     = Some (PStr (ascii ''k''))" by simp
  from u n have 3: "provider_settings example_env example_store None
     = (example_store, default_settings example_env)" by blast
  from g n 1 2 3 show ?thesis by blast
qed

text \<open>
  C1 as stated fails: tenant 5 stores an empty DeepL key (the settings command strips the
  key it is given and stores what is left); the process-wide default key is \<open>k\<close>, and
  the merged settings carry the tenant's empty key.
\<close>

theorem provider_settings_empty_tenant_value_wins:
  "default_settings example_env (ascii ''deepl_api_key'') = Some (PStr (ascii ''k'')) \<and>
   snd (provider_settings example_env
          (fst (update_settings empty_store 5 [(ascii ''deepl_api_key'', PStr [])])) (Some 5))
       (ascii ''deepl_api_key'') = Some (PStr [])"
  by (simp add: provider_settings_def has_guild_def update_settings_def get_settings_def
        empty_store_def set_field_def default_settings_def example_env_def default_env_def
        map_add_def py_eval)

lemma rstrip_eq_Nil_iff: "rstrip U s = [] \<longleftrightarrow> list_all (isspace U) s"
  by (simp add: rstrip_def dropWhile_eq_Nil_conv list_all_iff)

lemma lstrip_eq_Nil_iff: "lstrip U s = [] \<longleftrightarrow> list_all (isspace U) s"
  by (simp add: lstrip_def dropWhile_eq_Nil_conv list_all_iff)

lemma strip_eq_Nil_iff: "strip U s = [] \<longleftrightarrow> list_all (isspace U) s"
proof (cases "lstrip U s = []")
  case True
  then show ?thesis by (simp add: strip_def rstrip_def lstrip_eq_Nil_iff [symmetric])
next
  case False
  then have "\<not> isspace U (hd (lstrip U s))" unfolding lstrip_def by (rule hd_dropWhile)
  with False have "\<not> list_all (isspace U) (lstrip U s)"
    by (cases "lstrip U s") (auto simp: list_all_iff)
  with False show ?thesis
    by (simp add: strip_def rstrip_eq_Nil_iff lstrip_eq_Nil_iff [symmetric])
qed

lemma looks_numeric_like_no_letter:
  assumes "list_all (\<lambda>c. \<not> isalpha U c) t"
  shows "looks_numeric_like U t"
proof -
  have "set (strip U t) \<subseteq> set t" by (rule set_strip)
  with assms have "filter (isalpha U) (strip U t) = []"
    by (auto simp: filter_empty_conv list_all_iff)
  then show ?thesis by (simp add: looks_numeric_like_def Let_def)
qed

text \<open>
  C6 (as amended). A text of at least five characters none of which is alphabetic, as is
  every text composed purely of digits, punctuation and whitespace, that has a
  non-whitespace character and is no longer than the configured maximum, is classified
  numeric-like whenever the numeric-like filter is enabled, forced or not.
\<close>

theorem non_letter_text_is_numeric_like:
  "IGNORE_NUMERIC_LIKE E \<Longrightarrow> list_all (\<lambda>c. \<not> isalpha U c) txt \<Longrightarrow> 5 \<le> length txt \<Longrightarrow>
   list_ex (\<lambda>c. \<not> isspace U c) txt \<Longrightarrow> int (length txt) \<le> MAX_INPUT_CHARS E \<Longrightarrow>
   skip_reason U E txt force = Some NumericLike"
proof -
  assume e: "IGNORE_NUMERIC_LIKE E" and a: "list_all (\<lambda>c. \<not> isalpha U c) txt"
    and s: "list_ex (\<lambda>c. \<not> isspace U c) txt" and m: "int (length txt) \<le> MAX_INPUT_CHARS E"
  from s have "strip U txt \<noteq> []" by (auto simp: strip_eq_Nil_iff list_all_iff list_ex_iff)
  moreover from a have "looks_numeric_like U txt" by (rule looks_numeric_like_no_letter)
  ultimately show ?thesis using e m by (simp add: skip_reason_def)
qed

text \<open>The ASCII digits, punctuation marks and whitespace characters are not alphabetic.\<close>

lemma ascii_digit_punct_space_no_letter:
  "list_all (\<lambda>c. (48 \<le> c \<and> c \<le> 57) \<or> (33 \<le> c \<and> c \<le> 47) \<or> (58 \<le> c \<and> c \<le> 64) \<or>
                  (91 \<le> c \<and> c \<le> 96) \<or> (123 \<le> c \<and> c \<le> 126) \<or>
                  (9 \<le> c \<and> c \<le> 13) \<or> (28 \<le> c \<and> c \<le> 32)) s
   \<Longrightarrow> list_all (\<lambda>c. \<not> isalpha U c) s"
  by (induction s) (auto simp: isalpha_def)

theorem non_letter_text_is_numeric_like_witness:
  "IGNORE_NUMERIC_LIKE default_env \<and>
   skip_reason ascii_tables default_env (ascii ''12/34 (5)'') False = Some NumericLike \<and>
   skip_reason ascii_tables default_env (ascii ''12/34 (5)'') True = Some NumericLike"
proof -
  let ?t = "ascii ''12/34 (5)''"
  have 1: "IGNORE_NUMERIC_LIKE default_env" by (simp add: default_env_def)
  have 2: "list_all (\<lambda>c. \<not> isalpha ascii_tables c) ?t" by (simp add: isalpha_def)
  have 3: "5 \<le> length ?t" by simp
  have 4: "list_ex (\<lambda>c. \<not> isspace ascii_tables c) ?t" by (simp add: isspace_def)
  have 5: "int (length ?t) \<le> MAX_INPUT_CHARS default_env" by (simp add: default_env_def)
  from non_letter_text_is_numeric_like [OF 1 2 3 4 5] 1 show ?thesis by blast
qed

text \<open>
  C6 as stated fails: the blank rule and the length rule come first. Five spaces are
  classified blank, and 1801 digits are too long for the default maximum of 1800.
\<close>

theorem blank_or_long_text_is_not_numeric_like:
  "IGNORE_NUMERIC_LIKE default_env \<and>
   list_all (\<lambda>c. \<not> isalpha ascii_tables c) (replicate 5 32) \<and> 5 \<le> length (replicate 5 (32::nat)) \<and>
   skip_reason ascii_tables default_env (replicate 5 32) False = Some Blank \<and>
   skip_reason ascii_tables default_env (replicate 5 32) True = Some Blank \<and>
   list_all (\<lambda>c. \<not> isalpha ascii_tables c) (replicate 1801 49) \<and>
   skip_reason ascii_tables default_env (replicate 1801 49) False = Some (TooLong 1801) \<and>
   skip_reason ascii_tables default_env (replicate 1801 49) True = Some (TooLong 1801)"
proof -
  have b: "strip ascii_tables (replicate 5 32) = []"
    by (simp add: strip_eq_Nil_iff list_all_iff isspace_def)
  have l: "strip ascii_tables (replicate 1801 49) \<noteq> []"
    by (simp add: strip_eq_Nil_iff list_all_iff isspace_def)
  have m: "MAX_INPUT_CHARS default_env = 1800" "IGNORE_NUMERIC_LIKE default_env"
    by (simp_all add: default_env_def)
  show ?thesis using b l m by (simp add: skip_reason_def list_all_iff isalpha_def)
qed

lemma translate_via_chain_nothing:
  "list_all (yields_nothing U W t lang) chain \<Longrightarrow>
   translate_via_chain U W chain t lang = (chain, Inr None)"
proof (induction chain)
  case Nil
  show ?case by simp
next
  case (Cons p ps)
  then have y: "yields_nothing U W t lang p"
    and r: "translate_via_chain U W ps t lang = (ps, Inr None)" by simp_all
  from y show ?case
    by (auto simp: yields_nothing_def r split: sum.splits option.splits prod.splits pyval.splits)
qed

lemma translate_via_chain_skip:
  "yields_nothing U W t lang p \<Longrightarrow>
   translate_via_chain U W (p # ps) t lang =
     (p # fst (translate_via_chain U W ps t lang), snd (translate_via_chain U W ps t lang))"
  by (auto simp: yields_nothing_def Let_def split: sum.splits option.splits prod.splits pyval.splits)

lemma translate_via_chain_success:
  assumes "list_all (yields_nothing U W t lang) pre" and "succeeds_with U W t lang p d s"
  shows "translate_via_chain U W (pre @ p # post) t lang = (pre @ [p], Inr (Some (name p, d, s)))"
  using assms(1)
proof (induction pre)
  case Nil
  from assms(2) show ?case by (simp add: succeeds_with_def)
next
  case (Cons q qs)
  then have "yields_nothing U W t lang q"
    and "translate_via_chain U W (qs @ p # post) t lang = (qs @ [p], Inr (Some (name p, d, s)))"
    by simp_all
  then show ?case by (simp add: translate_via_chain_skip del: translate_via_chain.simps)
qed

text \<open>
  The dispatch over providers that keep to the contract of \<open>translate\<close>. When the
  providers before \<open>p\<close> yield nothing and \<open>p\<close> returns a translation that is not
  empty after trimming, exactly those providers and \<open>p\<close> are called, in that order, and
  the result is \<open>p\<close>'s translation with \<open>p\<close>'s name and its detected language. When
  every provider of the chain yields nothing, all are called and the result is \<open>None\<close>.
\<close>

lemma dispatch_first_success:
  "(list_all (yields_nothing U W t lang) pre \<and> succeeds_with U W t lang p d s \<longrightarrow>
      translate_via_chain U W (pre @ p # post) t lang = (pre @ [p], Inr (Some (name p, d, s)))) \<and>
   (list_all (yields_nothing U W t lang) chain \<longrightarrow>
      translate_via_chain U W chain t lang = (chain, Inr None))"
  by (simp add: translate_via_chain_success translate_via_chain_nothing)

lemmas prov_eval = example_world_def silent_world_def short_code_def quote_def quote_cp_def
  unreserved_def is_surrogate_def read_response_def try_or_none_def bind_exn_def
  py_get_def py_upper_def py_lower_def py_strip_def py_rstrip_slash_def py_or_def cfg_get_def
  lingva_result_def simply_result_def libre_result_def libre_detect_def libre_detected_def
  libre_payload_def deepl_result_def rstrip_slash_def

lemma example_lingva_raises:
  "translate ascii_tables example_world (LingvaProvider (ascii ''http://a'')) (ascii ''Salut'')
     (ascii ''EN-US'') = Inr None"
  by (simp add: prov_eval py_eval)

lemma example_simply_answers:
  "translate ascii_tables example_world (SimplyTranslateProvider (ascii ''http://b''))
     (ascii ''Salut'') (ascii ''EN-US'')
     = Inr (Some (ascii ''FR'', PStr (ascii ''Bonjour traduit'')))"
  by (simp add: prov_eval py_eval)

lemma dispatch_first_success_example:
  "translate_via_chain ascii_tables example_world
     [LingvaProvider (ascii ''http://a''), SimplyTranslateProvider (ascii ''http://b'')]
     (ascii ''Salut'') (ascii ''EN-US'')
     = ([LingvaProvider (ascii ''http://a''), SimplyTranslateProvider (ascii ''http://b'')],
        Inr (Some (ascii ''simply'', ascii ''FR'', ascii ''Bonjour traduit''))) \<and>
   translate_via_chain ascii_tables example_world [LingvaProvider (ascii ''http://a'')]
     (ascii ''Salut'') (ascii ''EN-US'')
     = ([LingvaProvider (ascii ''http://a'')], Inr None)"
proof -
  let ?x = "LingvaProvider (ascii ''http://a'')"
  let ?y = "SimplyTranslateProvider (ascii ''http://b'')"
  let ?t = "ascii ''Salut''"
  let ?l = "ascii ''EN-US''"
  have n: "list_all (yields_nothing ascii_tables example_world ?t ?l) [?x]"
    using example_lingva_raises by (simp add: yields_nothing_def del: translate.simps)
  have s: "succeeds_with ascii_tables example_world ?t ?l ?y (ascii ''FR'') (ascii ''Bonjour traduit'')"
    using example_simply_answers by (simp add: succeeds_with_def py_eval del: translate.simps)
  note d = dispatch_first_success [of ascii_tables example_world ?t ?l "[?x]" ?y "ascii ''FR''"
      "ascii ''Bonjour traduit''" "[]" "[?x]"]
  from d n s have 1: "translate_via_chain ascii_tables example_world ([?x] @ ?y # []) ?t ?l
      = ([?x] @ [?y], Inr (Some (name ?y, ascii ''FR'', ascii ''Bonjour traduit'')))" by blast
  from d n have 2: "translate_via_chain ascii_tables example_world [?x] ?t ?l = ([?x], Inr None)"
    by blast
  from 1 2 show ?thesis by simp
qed

lemma bind_exn_Inr_iff:
  "bind_exn m f = Inr y \<longleftrightarrow> (\<exists>x. m = Inr x \<and> f x = Inr y)"
  by (cases m) (simp_all add: bind_exn_def)

lemma all_variants_shape:
  assumes "all_variants U W cfg = Inr m"
  shows "\<exists>k t b1 k1 b2 b3.
           m = [(ascii ''deepl'', DeepLProvider k t), (ascii ''libre'', LibreTranslateProvider b1 k1),
                (ascii ''lingva'', LingvaProvider b2), (ascii ''simply'', SimplyTranslateProvider b3)]"
  using assms
  unfolding all_variants_def new_DeepLProvider_def new_LibreTranslateProvider_def
    new_LingvaProvider_def new_SimplyTranslateProvider_def bind_exn_Inr_iff
  by (elim exE conjE) (simp, blast)

lemma build_provider_chain_shape:
  assumes s: "selected_provider U cfg = Inr sel" and m: "all_variants U W cfg = Inr m"
    and v: "sel \<in> set PROVIDER_NAMES"
  shows "build_provider_chain U W cfg = Inr (expected_chain sel (map snd m))"
proof -
  from m obtain k t b1 k1 b2 b3 where
    e: "m = [(ascii ''deepl'', DeepLProvider k t), (ascii ''libre'', LibreTranslateProvider b1 k1),
             (ascii ''lingva'', LingvaProvider b2), (ascii ''simply'', SimplyTranslateProvider b3)]"
    using all_variants_shape by blast
  from v consider "sel = ascii ''deepl''" | "sel = ascii ''libre''" | "sel = ascii ''lingva''"
    | "sel = ascii ''simply''" by (auto simp: PROVIDER_NAMES_def)
  then show ?thesis
  proof cases
    case 1
    then show ?thesis
      by (simp add: build_provider_chain_def s m e bind_exn_def expected_chain_def
          priority_order_def Let_def)
  next
    case 2
    then show ?thesis
      by (simp add: build_provider_chain_def s m e bind_exn_def expected_chain_def
          priority_order_def Let_def)
  next
    case 3
    then show ?thesis
      by (simp add: build_provider_chain_def s m e bind_exn_def expected_chain_def
          priority_order_def Let_def)
  next
    case 4
    then show ?thesis
      by (simp add: build_provider_chain_def s m e bind_exn_def expected_chain_def
          priority_order_def Let_def)
  qed
qed

lemma build_provider_chain_invalid:
  assumes s: "selected_provider U cfg = Inr sel" and m: "all_variants U W cfg = Inr m"
    and v: "sel \<notin> set PROVIDER_NAMES"
  shows "build_provider_chain U W cfg = Inl KeyError"
proof -
  from m obtain k t b1 k1 b2 b3 where
    e: "m = [(ascii ''deepl'', DeepLProvider k t), (ascii ''libre'', LibreTranslateProvider b1 k1),
             (ascii ''lingva'', LingvaProvider b2), (ascii ''simply'', SimplyTranslateProvider b3)]"
    using all_variants_shape by blast
  from v have "map_of m sel = None" by (simp add: e PROVIDER_NAMES_def)
  then show ?thesis by (simp add: build_provider_chain_def s m bind_exn_def Let_def)
qed

lemma str_or_none_or:
  "str_or_none v \<Longrightarrow> \<exists>s. py_or v (PStr d) = PStr s"
  by (cases v) (simp_all add: str_or_none_def py_or_def)

lemma well_typed_selected:
  assumes "well_typed_settings cfg"
  shows "\<exists>sel. selected_provider U cfg = Inr sel"
proof -
  from assms have "str_or_none (cfg_get cfg (ascii ''provider''))"
    by (simp add: well_typed_settings_def SETTING_KEYS_def)
  from str_or_none_or [OF this] obtain s
    where "py_or (cfg_get cfg (ascii ''provider'')) (PStr (ascii ''deepl'')) = PStr s" by blast
  then show ?thesis by (simp add: selected_provider_def py_lower_def)
qed

lemma well_typed_all_variants:
  assumes "well_typed_settings cfg"
  shows "\<exists>m. all_variants U W cfg = Inr m"
proof -
  from assms have t: "str_or_none (cfg_get cfg (ascii ''deepl_api_key''))"
    "str_or_none (cfg_get cfg (ascii ''libre_url''))"
    "str_or_none (cfg_get cfg (ascii ''libre_api_key''))"
    "str_or_none (cfg_get cfg (ascii ''lingva_url''))"
    "str_or_none (cfg_get cfg (ascii ''simply_url''))"
    by (simp_all add: well_typed_settings_def SETTING_KEYS_def)
  from t [THEN str_or_none_or, of "[]"] obtain s1 s2 s3 s4 s5 where
    "py_or (cfg_get cfg (ascii ''deepl_api_key'')) (PStr []) = PStr s1"
    "py_or (cfg_get cfg (ascii ''libre_url'')) (PStr []) = PStr s2"
    "py_or (cfg_get cfg (ascii ''libre_api_key'')) (PStr []) = PStr s3"
    "py_or (cfg_get cfg (ascii ''lingva_url'')) (PStr []) = PStr s4"
    "py_or (cfg_get cfg (ascii ''simply_url'')) (PStr []) = PStr s5"
    by blast
  then show ?thesis
    by (simp add: all_variants_def new_DeepLProvider_def new_LibreTranslateProvider_def
        new_LingvaProvider_def new_SimplyTranslateProvider_def bind_exn_def py_strip_def
        py_rstrip_slash_def)
qed

lemma priority_order_names:
  assumes "map name provs = PROVIDER_NAMES" and "sel \<in> set PROVIDER_NAMES"
  shows "map name (priority_order sel provs) = sel # filter (\<lambda>n. n \<noteq> sel) PROVIDER_NAMES \<and>
         distinct (map name (priority_order sel provs)) \<and>
         length (filter (\<lambda>p. name p = sel) provs) = 1"
proof -
  have f: "map name (filter (\<lambda>p. P (name p)) provs) = filter P (map name provs)" for P
    by (induction provs) simp_all
  have "map name (priority_order sel provs)
      = filter (\<lambda>n. n = sel) PROVIDER_NAMES @ filter (\<lambda>n. n \<noteq> sel) PROVIDER_NAMES"
    using f [of "\<lambda>n. n = sel"] f [of "\<lambda>n. n \<noteq> sel"] assms(1) by (simp add: priority_order_def)
  moreover have "length (filter (\<lambda>p. name p = sel) provs) = length (filter (\<lambda>n. n = sel) PROVIDER_NAMES)"
    using f [of "\<lambda>n. n = sel"] assms(1) by (metis length_map)
  moreover from assms(2) have "filter (\<lambda>n. n = sel) PROVIDER_NAMES = [sel]"
    by (auto simp: PROVIDER_NAMES_def)
  moreover have "distinct PROVIDER_NAMES" by (simp add: PROVIDER_NAMES_def)
  ultimately show ?thesis by auto
qed

lemma expected_chain_unconfigured:
  assumes "\<not> list_ex is_configured provs" and "length (filter (\<lambda>p. name p = sel) provs) = 1"
  shows "\<exists>p. expected_chain sel provs = [p] \<and> name p = sel \<and> \<not> is_configured p \<and> p \<in> set provs"
proof -
  from assms(1) have n: "\<forall>p\<in>set provs. \<not> is_configured p" by (simp add: list_ex_iff)
  then have "filter is_configured (priority_order sel provs) = []"
    by (auto simp: priority_order_def filter_empty_conv)
  then have e: "expected_chain sel provs = filter (\<lambda>p. name p = sel) provs"
    by (simp add: expected_chain_def)
  from assms(2) obtain p where p: "filter (\<lambda>p. name p = sel) provs = [p]"
    by (cases "filter (\<lambda>p. name p = sel) provs") auto
  then have "p \<in> set (filter (\<lambda>p. name p = sel) provs)" by simp
  then have "name p = sel" "p \<in> set provs" by simp_all
  with n e p show ?thesis by auto
qed

lemma example_settings_selected:
  "selected_provider ascii_tables example_settings = Inr (ascii ''simply'')"
  by (simp add: selected_provider_def example_settings_def prov_eval py_eval)

lemma example_settings_variants:
  "all_variants ascii_tables silent_world example_settings =
     Inr [(ascii ''deepl'', DeepLProvider [] False),
          (ascii ''libre'', LibreTranslateProvider (ascii ''http://l'') []),
          (ascii ''lingva'', LingvaProvider []),
          (ascii ''simply'', SimplyTranslateProvider (ascii ''http://s''))]"
  by (simp add: all_variants_def new_DeepLProvider_def new_LibreTranslateProvider_def
      new_LingvaProvider_def new_SimplyTranslateProvider_def example_settings_def
      prov_eval py_eval)

lemma empty_settings_selected:
  "selected_provider ascii_tables Map.empty = Inr (ascii ''deepl'')"
  by (simp add: selected_provider_def prov_eval py_eval)

lemma empty_settings_variants:
  "all_variants ascii_tables silent_world Map.empty =
     Inr [(ascii ''deepl'', DeepLProvider [] False),
          (ascii ''libre'', LibreTranslateProvider [] []),
          (ascii ''lingva'', LingvaProvider []),
          (ascii ''simply'', SimplyTranslateProvider [])]"
  by (simp add: all_variants_def new_DeepLProvider_def new_LibreTranslateProvider_def
      new_LingvaProvider_def new_SimplyTranslateProvider_def prov_eval py_eval)

lemma invoked_subset: "set (fst (translate_via_chain U W chain t lang)) \<subseteq> set chain"
proof (induction chain)
  case Nil
  show ?case by simp
next
  case (Cons p ps)
  then show ?case
    by (auto simp: Let_def split: sum.splits option.splits prod.splits pyval.splits if_splits)
qed

lemma translate_unconfigured:
  "\<not> is_configured p \<Longrightarrow> translate U W p t lang = Inr None"
  by (cases p) simp_all

lemma expected_chain_configured:
  assumes "list_ex is_configured provs"
  shows "list_all is_configured (expected_chain sel provs)"
proof -
  from assms obtain p where "p \<in> set provs" "is_configured p" by (auto simp: list_ex_iff)
  then have "p \<in> set (filter is_configured (priority_order sel provs))"
    by (auto simp: priority_order_def)
  then have "filter is_configured (priority_order sel provs) \<noteq> []"
    by (metis empty_iff list.set(1))
  then show ?thesis by (simp add: expected_chain_def Let_def list_all_iff)
qed

lemma build_provider_chain_Inr:
  assumes b: "build_provider_chain U W cfg = Inr chain" and m: "all_variants U W cfg = Inr m"
  shows "\<exists>sel. selected_provider U cfg = Inr sel \<and> sel \<in> set PROVIDER_NAMES \<and>
               chain = expected_chain sel (map snd m)"
proof -
  from b obtain sel where s: "selected_provider U cfg = Inr sel"
    by (auto simp: build_provider_chain_def bind_exn_Inr_iff)
  have v: "sel \<in> set PROVIDER_NAMES"
  proof (rule ccontr)
    assume "sel \<notin> set PROVIDER_NAMES"
    from build_provider_chain_invalid [OF s m this] b show False by simp
  qed
  from build_provider_chain_shape [OF s m v] b have "chain = expected_chain sel (map snd m)" by simp
  with s v show ?thesis by blast
qed

text \<open>
  C5 (as amended). In a dispatch over the chain built from the settings, when some variant
  is configured every provider whose \<open>translate\<close> is called is configured. When no
  variant is configured, the chain is the selected variant alone: its \<open>translate\<close> is
  called once and returns \<open>None\<close> whatever the back-ends would answer, and the dispatch
  returns \<open>None\<close>.
\<close>

theorem unconfigured_invoked_only_as_fallback:
  "build_provider_chain U W cfg = Inr chain \<Longrightarrow> all_variants U W cfg = Inr m \<Longrightarrow>
   (list_ex is_configured (map snd m) \<longrightarrow>
      list_all is_configured (fst (translate_via_chain U W chain t lang))) \<and>
   (\<not> list_ex is_configured (map snd m) \<longrightarrow>
      (\<exists>p. chain = [p] \<and> \<not> is_configured p \<and> selected_provider U cfg = Inr (name p) \<and>
           (\<forall>W'. translate U W' p t lang = Inr None) \<and>
           translate_via_chain U W chain t lang = ([p], Inr None)))"
proof -
  assume b: "build_provider_chain U W cfg = Inr chain" and m: "all_variants U W cfg = Inr m"
  from build_provider_chain_Inr [OF b m] obtain sel where s: "selected_provider U cfg = Inr sel"
    and v: "sel \<in> set PROVIDER_NAMES" and c: "chain = expected_chain sel (map snd m)" by blast
  have 1: "list_all is_configured (fst (translate_via_chain U W chain t lang))"
    if "list_ex is_configured (map snd m)"
  proof -
    from expected_chain_configured [OF that] c have "list_all is_configured chain" by simp
    with invoked_subset [of U W chain t lang] show ?thesis by (auto simp: list_all_iff)
  qed
  have 2: "\<exists>p. chain = [p] \<and> \<not> is_configured p \<and> selected_provider U cfg = Inr (name p) \<and>
           (\<forall>W'. translate U W' p t lang = Inr None) \<and>
           translate_via_chain U W chain t lang = ([p], Inr None)"
    if n: "\<not> list_ex is_configured (map snd m)"
  proof -
    from all_variants_shape [OF m] have "map name (map snd m) = PROVIDER_NAMES"
      by (auto simp: PROVIDER_NAMES_def)
    from priority_order_names [OF this v]
    have "length (filter (\<lambda>p. name p = sel) (map snd m)) = 1" by blast
    from expected_chain_unconfigured [OF n this] c obtain p
      where p: "chain = [p]" "name p = sel" "\<not> is_configured p" by auto
    from p(3) have t: "translate U W' p t lang = Inr None" for W'
      by (rule translate_unconfigured)
    then have "translate_via_chain U W [p] t lang = ([p], Inr None)" by simp
    with p s t show ?thesis by auto
  qed
  from 1 2 show ?thesis by blast
qed

theorem unconfigured_invoked_only_as_fallback_witness:
  "list_ex is_configured
     [DeepLProvider [] False, LibreTranslateProvider (ascii ''http://l'') [],
      LingvaProvider [], SimplyTranslateProvider (ascii ''http://s'')] \<and>
   list_all is_configured
     (fst (translate_via_chain ascii_tables silent_world
        [SimplyTranslateProvider (ascii ''http://s''), LibreTranslateProvider (ascii ''http://l'') []]
        (ascii ''Salut'') (ascii ''EN-US''))) \<and>
   translate_via_chain ascii_tables silent_world [DeepLProvider [] False]
        (ascii ''Salut'') (ascii ''EN-US'') = ([DeepLProvider [] False], Inr None)"
proof -
  have b1: "build_provider_chain ascii_tables silent_world example_settings
     = Inr [SimplyTranslateProvider (ascii ''http://s''),
            LibreTranslateProvider (ascii ''http://l'') []]"
    using build_provider_chain_shape [OF example_settings_selected example_settings_variants]
    by (simp add: PROVIDER_NAMES_def expected_chain_def priority_order_def)
  have b2: "build_provider_chain ascii_tables silent_world Map.empty = Inr [DeepLProvider [] False]"
    using build_provider_chain_shape [OF empty_settings_selected empty_settings_variants]
    by (simp add: PROVIDER_NAMES_def expected_chain_def priority_order_def)
  have c: "list_ex is_configured
     [DeepLProvider [] False, LibreTranslateProvider (ascii ''http://l'') [],
      LingvaProvider [], SimplyTranslateProvider (ascii ''http://s'')]" by simp
  from unconfigured_invoked_only_as_fallback [OF b1 example_settings_variants,
      of "ascii ''Salut''" "ascii ''EN-US''"] c
  have 1: "list_all is_configured
     (fst (translate_via_chain ascii_tables silent_world
        [SimplyTranslateProvider (ascii ''http://s''), LibreTranslateProvider (ascii ''http://l'') []]
        (ascii ''Salut'') (ascii ''EN-US'')))" by simp
  from unconfigured_invoked_only_as_fallback [OF b2 empty_settings_variants,
      of "ascii ''Salut''" "ascii ''EN-US''"]
  have 2: "translate_via_chain ascii_tables silent_world [DeepLProvider [] False]
        (ascii ''Salut'') (ascii ''EN-US'') = ([DeepLProvider [] False], Inr None)" by simp
  from c 1 2 show ?thesis by blast
qed

text \<open>
  C5 as stated fails: with the default environment nothing is configured, the chain is the
  unconfigured DeepL variant, and the dispatch calls its \<open>translate\<close>.
\<close>

theorem unconfigured_selected_provider_is_invoked:
  "build_provider_chain ascii_tables silent_world (default_settings default_env)
     = Inr [DeepLProvider [] False] \<and>
   fst (translate_via_chain ascii_tables silent_world [DeepLProvider [] False]
          (ascii ''Salut'') (ascii ''EN-US'')) = [DeepLProvider [] False] \<and>
   \<not> is_configured (DeepLProvider [] False)"
proof -
  have s: "selected_provider ascii_tables (default_settings default_env) = Inr (ascii ''deepl'')"
    by (simp add: selected_provider_def default_settings_def default_env_def prov_eval py_eval)
  have m: "all_variants ascii_tables silent_world (default_settings default_env) =
     Inr [(ascii ''deepl'', DeepLProvider [] False),
          (ascii ''libre'', LibreTranslateProvider [] []),
          (ascii ''lingva'', LingvaProvider []),
          (ascii ''simply'', SimplyTranslateProvider [])]"
    by (simp add: all_variants_def new_DeepLProvider_def new_LibreTranslateProvider_def
      new_LingvaProvider_def new_SimplyTranslateProvider_def default_settings_def default_env_def
      prov_eval py_eval)
  have "build_provider_chain ascii_tables silent_world (default_settings default_env)
     = Inr [DeepLProvider [] False]"
    using build_provider_chain_shape [OF s m]
    by (simp add: PROVIDER_NAMES_def expected_chain_def priority_order_def)
  then show ?thesis by simp
qed

lemma post_filter_empty_detected:
  "post_filter U E S guild_id txt apply_blacklist (nm, [], t) =
     (if normalize U t = normalize U txt then None else Some (nm, [], t))"
  by (simp add: post_filter_def startswith_def upper_def)

text \<open>
  C10. When the text is admitted and the dispatch succeeds with an empty detected
  language, neither the blacklist check nor the English check ends the pipeline, whatever
  the blacklists hold: the pipeline returns \<open>None\<close> only when the translation equals the
  input after normalisation, and otherwise the provider's name, the empty language and
  the translation itself, without a header, whether or not headers are enabled.
\<close>

theorem empty_detected_language_passes_filters:
  "skip_reason U E txt force = None \<Longrightarrow>
   build_provider_chain U W (snd (provider_settings E S guild_id)) = Inr chain \<Longrightarrow>
   snd (translate_via_chain U W chain txt (ascii ''EN-US'')) = Inr (Some (nm, [], t)) \<Longrightarrow>
   snd (translate_pipeline U W E S guild_id txt force apply_blacklist) =
     Inr (if normalize U t = normalize U txt then None else Some (nm, [], t))"
  by (simp add: translate_pipeline_def Let_def post_filter_empty_detected)

theorem empty_detected_language_passes_filters_witness:
  "ENV_BLACKLIST blacklist_env = [ascii ''FR''] \<and> SHOW_SOURCE_LANG blacklist_env \<and>
   snd (translate_via_chain ascii_tables example_world [LibreTranslateProvider (ascii ''X'') []]
          (ascii ''bonjour a tous'') (ascii ''EN-US''))
     = Inr (Some (ascii ''libre'', [], ascii ''hello everyone'')) \<and>
   snd (translate_pipeline ascii_tables example_world blacklist_env example_store (Some 5)
          (ascii ''bonjour a tous'') False True)
     = Inr (Some (ascii ''libre'', [], ascii ''hello everyone''))"
proof -
  let ?t = "ascii ''bonjour a tous''"
  have e: "ENV_BLACKLIST blacklist_env = [ascii ''FR'']" "SHOW_SOURCE_LANG blacklist_env"
    by (simp_all add: blacklist_env_def default_env_def)
  have k: "skip_reason ascii_tables blacklist_env ?t False = None" by code_simp
  have b: "build_provider_chain ascii_tables example_world
             (snd (provider_settings blacklist_env example_store (Some 5)))
           = Inr [LibreTranslateProvider (ascii ''X'') []]"
    by code_simp
  have d: "snd (translate_via_chain ascii_tables example_world
             [LibreTranslateProvider (ascii ''X'') []] ?t (ascii ''EN-US''))
           = Inr (Some (ascii ''libre'', [], ascii ''hello everyone''))"
    by code_simp
  have n: "normalize ascii_tables (ascii ''hello everyone'') \<noteq> normalize ascii_tables ?t"
    by code_simp
  from empty_detected_language_passes_filters [OF k b d, of True] n
  have "snd (translate_pipeline ascii_tables example_world blacklist_env example_store (Some 5)
          ?t False True) = Inr (Some (ascii ''libre'', [], ascii ''hello everyone''))"
    by (simp del: translate_via_chain.simps)
  with e d show ?thesis by blast
qed

text \<open>
  A network error, a status other than 200, a body that is not JSON and an exception
  while the body is read each give the absent result.
\<close>

lemma read_response_faults:
  "read_response Raises f = None"
  "status \<noteq> 200 \<Longrightarrow> read_response (Response status body) f = None"
  "read_response (Response status None) f = None"
  "f data = Inl e \<Longrightarrow> read_response (Response status (Some data)) f = None"
  by (simp_all add: read_response_def try_or_none_def)

text \<open>That is the only exception \<open>translate\<close> lets through.\<close>

lemma translate_raises_iff:
  "translate U W p t lang = Inl e \<longleftrightarrow>
     (\<exists>b. p = LingvaProvider b \<and> b \<noteq> [] \<and> list_ex is_surrogate t \<and> e = UnicodeEncodeError)"
  by (cases p) (auto simp: quote_def bind_exn_def Let_def)

text \<open>
  C8. \<open>translate\<close> does not report every fault as an absent result. A back-end that
  answers with a translation that is not a string makes SimplyTranslate's \<open>translate\<close>
  return that value, on which the dispatcher's \<open>res[1].strip()\<close> raises
  \<open>AttributeError\<close>; and Lingva's \<open>translate\<close> quotes the text before its \<open>try\<close>
  block, so a text with a surrogate code point raises \<open>UnicodeEncodeError\<close> to the
  caller.
\<close>

theorem translate_fault_reaches_caller:
  "translate ascii_tables malformed_world (SimplyTranslateProvider (ascii ''http://s''))
     (ascii ''Salut'') (ascii ''EN-US'') = Inr (Some ([], PNum 5)) \<and>
   snd (translate_via_chain ascii_tables malformed_world
          [SimplyTranslateProvider (ascii ''http://s'')] (ascii ''Salut'') (ascii ''EN-US''))
     = Inl AttributeError \<and>
   translate ascii_tables malformed_world (LingvaProvider (ascii ''http://a'')) [55296]
     (ascii ''EN-US'') = Inl UnicodeEncodeError"
proof -
  have 1: "translate ascii_tables malformed_world (SimplyTranslateProvider (ascii ''http://s''))
     (ascii ''Salut'') (ascii ''EN-US'') = Inr (Some ([], PNum 5))"
    by code_simp
  then have 2: "snd (translate_via_chain ascii_tables malformed_world
          [SimplyTranslateProvider (ascii ''http://s'')] (ascii ''Salut'') (ascii ''EN-US''))
     = Inl AttributeError"
    by (simp del: translate.simps)
  have 3: "translate ascii_tables malformed_world (LingvaProvider (ascii ''http://a'')) [55296]
     (ascii ''EN-US'') = Inl UnicodeEncodeError"
    by (simp add: quote_def is_surrogate_def bind_exn_def)
  from 1 2 3 show ?thesis by blast
qed

text \<open>
  C3. \<open>translate_via_chain\<close> does not always return the first translation that is not
  empty after trimming. SimplyTranslate answers with a number for a translation, so its
  \<open>translate\<close> returns a pair whose second component is no string; LibreTranslate, next
  in the chain, would succeed; the dispatcher calls SimplyTranslate only and raises
  \<open>AttributeError\<close> at \<open>res[1].strip()\<close>.
\<close>

theorem dispatch_raises_on_malformed_translation:
  "translate ascii_tables mixed_world (SimplyTranslateProvider (ascii ''http://s''))
     (ascii ''Salut'') (ascii ''EN-US'') = Inr (Some ([], PNum 5)) \<and>
   succeeds_with ascii_tables mixed_world (ascii ''Salut'') (ascii ''EN-US'')
     (LibreTranslateProvider (ascii ''http://l'') []) [] (ascii ''hello everyone'') \<and>
   translate_via_chain ascii_tables mixed_world
     [SimplyTranslateProvider (ascii ''http://s''), LibreTranslateProvider (ascii ''http://l'') []]
     (ascii ''Salut'') (ascii ''EN-US'')
     = ([SimplyTranslateProvider (ascii ''http://s'')], Inl AttributeError)"
proof -
  have 1: "translate ascii_tables mixed_world (SimplyTranslateProvider (ascii ''http://s''))
     (ascii ''Salut'') (ascii ''EN-US'') = Inr (Some ([], PNum 5))"
    by code_simp
  have 2: "succeeds_with ascii_tables mixed_world (ascii ''Salut'') (ascii ''EN-US'')
     (LibreTranslateProvider (ascii ''http://l'') []) [] (ascii ''hello everyone'')"
    by code_simp
  from 1 have 3: "translate_via_chain ascii_tables mixed_world
     [SimplyTranslateProvider (ascii ''http://s''), LibreTranslateProvider (ascii ''http://l'') []]
     (ascii ''Salut'') (ascii ''EN-US'')
     = ([SimplyTranslateProvider (ascii ''http://s'')], Inl AttributeError)"
    by (simp del: translate.simps)
  from 1 2 3 show ?thesis by blast
qed

text \<open>
  The chain builder against the specification's description, for settings whose fields
  are strings or absent: the selected name and the four variants are those the record
  describes; when the selected name is one of the four, the priority order is that name
  followed by the other three in canonical order, without duplicates, and the chain is
  what \<open>is_configured\<close> keeps of the variants in that order, or the selected,
  unconfigured variant alone when no variant is configured. For any other selected name
  \<open>all_map[name]\<close> raises \<open>KeyError\<close>.
\<close>

lemma py_or_field:
  "str_or_none (cfg_get cfg k) \<Longrightarrow>
   py_or (cfg_get cfg k) (PStr d) = PStr (if field_str cfg k = [] then d else field_str cfg k)"
  by (cases "cfg_get cfg k") (simp_all add: str_or_none_def py_or_def field_str_def)

lemma variants_from_record:
  assumes "well_typed_settings cfg"
  shows "selected_provider U cfg = Inr (expected_selected U cfg) \<and>
         all_variants U W cfg = Inr (zip PROVIDER_NAMES (expected_variants U W cfg))"
proof -
  from assms have t: "str_or_none (cfg_get cfg (ascii ''provider''))"
    "str_or_none (cfg_get cfg (ascii ''deepl_api_key''))"
    "str_or_none (cfg_get cfg (ascii ''libre_url''))"
    "str_or_none (cfg_get cfg (ascii ''libre_api_key''))"
    "str_or_none (cfg_get cfg (ascii ''lingva_url''))"
    "str_or_none (cfg_get cfg (ascii ''simply_url''))"
    by (simp_all add: well_typed_settings_def SETTING_KEYS_def)
  have i: "(if a = [] then [] else a) = a" for a :: pystr by simp
  have 1: "selected_provider U cfg = Inr (expected_selected U cfg)"
    unfolding selected_provider_def expected_selected_def py_or_field [OF t(1)] py_lower_def
    by simp
  have 2: "all_variants U W cfg = Inr (zip PROVIDER_NAMES (expected_variants U W cfg))"
    unfolding all_variants_def new_DeepLProvider_def new_LibreTranslateProvider_def
      new_LingvaProvider_def new_SimplyTranslateProvider_def
      py_or_field [OF t(2)] py_or_field [OF t(3)] py_or_field [OF t(4)]
      py_or_field [OF t(5)] py_or_field [OF t(6)] i
    by (simp add: bind_exn_def py_strip_def py_rstrip_slash_def expected_variants_def
        PROVIDER_NAMES_def Let_def)
  from 1 2 show ?thesis by blast
qed

lemma names_of_expected_variants: "map name (expected_variants U W cfg) = PROVIDER_NAMES"
  by (simp add: expected_variants_def PROVIDER_NAMES_def Let_def)

lemma snd_zip_expected_variants:
  "map snd (zip PROVIDER_NAMES (expected_variants U W cfg)) = expected_variants U W cfg"
  by (simp add: expected_variants_def PROVIDER_NAMES_def Let_def)

lemma build_provider_chain_from_record:
  "well_typed_settings cfg \<Longrightarrow> expected_selected U cfg \<in> set PROVIDER_NAMES \<Longrightarrow>
   selected_provider U cfg = Inr (expected_selected U cfg) \<and>
   all_variants U W cfg = Inr (zip PROVIDER_NAMES (expected_variants U W cfg)) \<and>
   map name (priority_order (expected_selected U cfg) (expected_variants U W cfg))
     = expected_selected U cfg # filter (\<lambda>n. n \<noteq> expected_selected U cfg) PROVIDER_NAMES \<and>
   distinct (map name (priority_order (expected_selected U cfg) (expected_variants U W cfg))) \<and>
   build_provider_chain U W cfg
     = Inr (expected_chain (expected_selected U cfg) (expected_variants U W cfg)) \<and>
   (\<not> list_ex is_configured (expected_variants U W cfg) \<longrightarrow>
      (\<exists>p. expected_chain (expected_selected U cfg) (expected_variants U W cfg) = [p] \<and>
           name p = expected_selected U cfg \<and> \<not> is_configured p))"
proof -
  assume w: "well_typed_settings cfg" and v: "expected_selected U cfg \<in> set PROVIDER_NAMES"
  let ?sel = "expected_selected U cfg"
  let ?provs = "expected_variants U W cfg"
  from variants_from_record [OF w] have s: "selected_provider U cfg = Inr ?sel"
    and m: "all_variants U W cfg = Inr (zip PROVIDER_NAMES ?provs)" by blast+
  note o = priority_order_names [OF names_of_expected_variants v, of U W cfg]
  from o have o1: "map name (priority_order ?sel ?provs) = ?sel # filter (\<lambda>n. n \<noteq> ?sel) PROVIDER_NAMES"
    and o2: "distinct (map name (priority_order ?sel ?provs))"
    and l: "length (filter (\<lambda>p. name p = ?sel) ?provs) = 1" by blast+
  have u: "\<not> list_ex is_configured ?provs \<longrightarrow>
          (\<exists>p. expected_chain ?sel ?provs = [p] \<and> name p = ?sel \<and> \<not> is_configured p)"
    using expected_chain_unconfigured [OF _ l] by blast
  have b: "build_provider_chain U W cfg = Inr (expected_chain ?sel ?provs)"
    using build_provider_chain_shape [OF s m v] by (simp only: snd_zip_expected_variants)
  show ?thesis by (intro conjI s m o1 o2 b u)
qed

lemma build_provider_chain_unknown_name:
  "well_typed_settings cfg \<Longrightarrow> expected_selected U cfg \<notin> set PROVIDER_NAMES \<Longrightarrow>
   build_provider_chain U W cfg = Inl KeyError"
  using variants_from_record [of cfg U W] build_provider_chain_invalid by blast

lemma build_provider_chain_from_record_example:
  "well_typed_settings full_settings \<and>
   expected_selected ascii_tables full_settings = ascii ''lingva'' \<and>
   expected_variants ascii_tables silent_world full_settings
     = [DeepLProvider (ascii ''key'') True,
        LibreTranslateProvider (ascii ''http://l'') (ascii ''lk''),
        LingvaProvider (ascii ''http://g''), SimplyTranslateProvider []] \<and>
   build_provider_chain ascii_tables silent_world full_settings
     = Inr [LingvaProvider (ascii ''http://g''), DeepLProvider (ascii ''key'') True,
            LibreTranslateProvider (ascii ''http://l'') (ascii ''lk'')]"
proof -
  have w: "well_typed_settings full_settings" by code_simp
  have s: "expected_selected ascii_tables full_settings = ascii ''lingva''" by code_simp
  have e: "expected_variants ascii_tables silent_world full_settings
     = [DeepLProvider (ascii ''key'') True,
        LibreTranslateProvider (ascii ''http://l'') (ascii ''lk''),
        LingvaProvider (ascii ''http://g''), SimplyTranslateProvider []]" by code_simp
  have v: "expected_selected ascii_tables full_settings \<in> set PROVIDER_NAMES" by code_simp
  from build_provider_chain_from_record [OF w v, of silent_world]
  have "build_provider_chain ascii_tables silent_world full_settings
     = Inr (expected_chain (expected_selected ascii_tables full_settings)
              (expected_variants ascii_tables silent_world full_settings))" by blast
  also have "\<dots> = Inr [LingvaProvider (ascii ''http://g''), DeepLProvider (ascii ''key'') True,
            LibreTranslateProvider (ascii ''http://l'') (ascii ''lk'')]" by code_simp
  finally show ?thesis using w s e by blast
qed

text \<open>
  C4. \<open>build_provider_chain\<close> does not return a chain for every merged settings
  record. The default provider is read from the environment and never checked; with the
  default \<open>google\<close> and a LibreTranslate URL, and no tenant, the merged record is well
  typed and its LibreTranslate variant is configured, yet the builder raises
  \<open>KeyError\<close>.
\<close>

theorem build_provider_chain_unknown_default_raises:
  "DEFAULT_PROVIDER google_env = ascii ''google'' \<and>
   well_typed_settings (snd (provider_settings google_env empty_store None)) \<and>
   expected_variants ascii_tables silent_world (snd (provider_settings google_env empty_store None))
     = [DeepLProvider [] False, LibreTranslateProvider (ascii ''http://l'') [],
        LingvaProvider [], SimplyTranslateProvider []] \<and>
   is_configured (LibreTranslateProvider (ascii ''http://l'') []) \<and>
   build_provider_chain ascii_tables silent_world
     (snd (provider_settings google_env empty_store None)) = Inl KeyError"
proof -
  have 1: "DEFAULT_PROVIDER google_env = ascii ''google''" by code_simp
  have 2: "well_typed_settings (snd (provider_settings google_env empty_store None))"
    by code_simp
  have 3: "expected_variants ascii_tables silent_world
             (snd (provider_settings google_env empty_store None))
     = [DeepLProvider [] False, LibreTranslateProvider (ascii ''http://l'') [],
        LingvaProvider [], SimplyTranslateProvider []]" by code_simp
  have 4: "is_configured (LibreTranslateProvider (ascii ''http://l'') [])" by simp
  have 5: "build_provider_chain ascii_tables silent_world
     (snd (provider_settings google_env empty_store None)) = Inl KeyError" by code_simp
  from 1 2 3 4 5 show ?thesis by blast
qed

end
